theory Spec2Isabelle
  imports Main "HOL-Library.Char_ord" "HOL-Library.List_Lexorder"
begin

section \<open>Python values used by the simulation\<close>

text \<open>
  The script is \<^verbatim>\<open>classroom_simulation.py\<close>. Exceptions of the source are values:
  a fallible operation returns \<open>py_error + 'a\<close>, with \<open>Inl\<close> the exception that
  leaves the function. \<open>OutsideModel\<close> is not a Python exception: it marks a response
  whose field holds a value outside the type the source annotates for it
  (\<^verbatim>\<open>Optional[str]\<close>), which this development does not follow further.
\<close>

datatype py_error = AttributeError | TypeError | KeyError | ValueError | OutsideModel

text \<open>What \<^verbatim>\<open>response.json()\<close> and a socket event carry.\<close>

datatype json =
    JNull
  | JBool bool
  | JNum int
  | JStr string
  | JArr "json list"
  | JObj "(string \<times> json) list"

text \<open>Truthiness of an \<^verbatim>\<open>Optional[str]\<close>: \<^verbatim>\<open>None\<close> and the empty string are false.\<close>

fun truthy :: "string option \<Rightarrow> bool" where
  "truthy None = False"
| "truthy (Some s) = (s \<noteq> [])"

fun json_truthy :: "json \<Rightarrow> bool" where
  "json_truthy JNull = False"
| "json_truthy (JBool b) = b"
| "json_truthy (JNum n) = (n \<noteq> 0)"
| "json_truthy (JStr s) = (s \<noteq> [])"
| "json_truthy (JArr xs) = (xs \<noteq> [])"
| "json_truthy (JObj kvs) = (kvs \<noteq> [])"

text \<open>\<^verbatim>\<open>d[key]\<close>: KeyError on a dict without the key, TypeError on anything else
  (a list or a string wants an integer index, the other values are not subscriptable).\<close>

fun py_getitem :: "json \<Rightarrow> string \<Rightarrow> py_error + json" where
  "py_getitem (JObj kvs) k = (case map_of kvs k of None \<Rightarrow> Inl KeyError | Some v \<Rightarrow> Inr v)"
| "py_getitem _ k = Inl TypeError"

text \<open>\<^verbatim>\<open>d.get(key, default)\<close>: only a dict has the method.\<close>

fun py_get :: "json \<Rightarrow> string \<Rightarrow> json \<Rightarrow> py_error + json" where
  "py_get (JObj kvs) k d = Inr (case map_of kvs k of None \<Rightarrow> d | Some v \<Rightarrow> v)"
| "py_get _ k d = Inl AttributeError"

text \<open>A JSON value read into a field annotated \<^verbatim>\<open>Optional[str]\<close>.\<close>

fun as_optional_str :: "json \<Rightarrow> py_error + string option" where
  "as_optional_str JNull = Inr None"
| "as_optional_str (JStr s) = Inr (Some s)"
| "as_optional_str _ = Inl OutsideModel"

fun json_of_optional_str :: "string option \<Rightarrow> json" where
  "json_of_optional_str None = JNull"
| "json_of_optional_str (Some s) = JStr s"

section \<open>EventTracker\<close>

record event_tracker =
  batch_quizzes_created :: "string set"
  batch_quizzes_finished :: "string set"
  batch_quizzes_disclosed :: "string set"
  batch_quizzes_closed :: "string set"
  student_points :: "string set"

definition new_tracker :: event_tracker where
  "new_tracker = \<lparr>batch_quizzes_created = {}, batch_quizzes_finished = {},
     batch_quizzes_disclosed = {}, batch_quizzes_closed = {}, student_points = {}\<rparr>"

text \<open>The five event kinds are the five set-valued fields of the dataclass.\<close>

definition event_kinds :: "string list" where
  "event_kinds = [''batch_quizzes_created'', ''batch_quizzes_finished'',
     ''batch_quizzes_disclosed'', ''batch_quizzes_closed'', ''student_points'']"

text \<open>\<^verbatim>\<open>getattr(self, event_name)\<close>. Any other name is no set of the tracker:
  \<^verbatim>\<open>getattr\<close> raises AttributeError, or finds a method or a dunder attribute on which the
  \<^verbatim>\<open>len\<close> or the set difference that follow raise TypeError; \<open>None\<close> stands for both.\<close>

definition getattr_tracker :: "event_tracker \<Rightarrow> string \<Rightarrow> string set option" where
  "getattr_tracker t name =
     (if name = ''batch_quizzes_created'' then Some (batch_quizzes_created t)
      else if name = ''batch_quizzes_finished'' then Some (batch_quizzes_finished t)
      else if name = ''batch_quizzes_disclosed'' then Some (batch_quizzes_disclosed t)
      else if name = ''batch_quizzes_closed'' then Some (batch_quizzes_closed t)
      else if name = ''student_points'' then Some (student_points t)
      else None)"

text \<open>The lines \<^verbatim>\<open>assert_all_received\<close> logs, in the order of the source.\<close>

datatype diag =
    EventSummary string nat nat int
  | AllReceived nat string
  | NoteNotSeated int
  | OnlyReceived nat nat string
  | MissingIds "string list"
  | UnexpectedIds "string list"
  | NoteOnlySeated nat int

text \<open>\<^verbatim>\<open>if total_students and ...\<close>: \<^verbatim>\<open>None\<close> and 0 are false.\<close>

fun total_given :: "int option \<Rightarrow> (int \<Rightarrow> bool) \<Rightarrow> bool" where
  "total_given None p = False"
| "total_given (Some n) p = (n \<noteq> 0 \<and> p n)"

fun total_or_zero :: "int option \<Rightarrow> int" where
  "total_or_zero None = 0"
| "total_or_zero (Some n) = n"

text \<open>
  \<^verbatim>\<open>EventTracker.assert_all_received(event_name, expected_student_ids, total_students)\<close>.
  The result is the tracker after the call, the returned boolean and the lines logged.
\<close>

definition assert_all_received ::
  "event_tracker \<Rightarrow> string \<Rightarrow> string set \<Rightarrow> int option
     \<Rightarrow> py_error + (event_tracker \<times> bool \<times> diag list)" where
  "assert_all_received self event_name expected_student_ids total_students =
     (case getattr_tracker self event_name of
        None \<Rightarrow> Inl AttributeError
      | Some event_set \<Rightarrow>
          let received = card event_set;
              expected_count = card expected_student_ids;
              summary =
                (if total_given total_students (\<lambda>n. n \<noteq> int expected_count)
                 then [EventSummary event_name received expected_count (total_or_zero total_students)]
                 else [])
          in if received = expected_count \<and> event_set = expected_student_ids
             then Inr (self, True,
                    summary @ [AllReceived expected_count event_name] @
                    (if total_given total_students (\<lambda>n. n > int expected_count)
                     then [NoteNotSeated (total_or_zero total_students - int expected_count)]
                     else []))
             else
               let missing = expected_student_ids - event_set;
                   unexpected = event_set - expected_student_ids
               in Inr (self, False,
                    summary @ [OnlyReceived received expected_count event_name] @
                    (if missing \<noteq> {} then [MissingIds (sorted_list_of_set missing)] else []) @
                    (if unexpected \<noteq> {}
                     then [UnexpectedIds (sorted_list_of_set unexpected)] else []) @
                    (if total_given total_students (\<lambda>n. n > int expected_count)
                     then [NoteOnlySeated expected_count (total_or_zero total_students)]
                     else [])))"

text \<open>The identities a log reports as missing, and as unexpected.\<close>

fun missing_reported :: "diag list \<Rightarrow> string set" where
  "missing_reported [] = {}"
| "missing_reported (MissingIds xs # ds) = set xs \<union> missing_reported ds"
| "missing_reported (_ # ds) = missing_reported ds"

fun unexpected_reported :: "diag list \<Rightarrow> string set" where
  "unexpected_reported [] = {}"
| "unexpected_reported (UnexpectedIds xs # ds) = set xs \<union> unexpected_reported ds"
| "unexpected_reported (_ # ds) = unexpected_reported ds"

section \<open>Requests, responses and what an operation does\<close>

text \<open>
  An HTTP call of the source is \<^verbatim>\<open>requests.post/put/get\<close>, then
  \<^verbatim>\<open>raise_for_status()\<close>, then possibly \<^verbatim>\<open>response.json()\<close>. Its outcome is an input of
  the model: either the call raised a \<^verbatim>\<open>requests.exceptions.RequestException\<close> (transport
  failure, timeout, an error status), carrying the text of the response when there is
  one, or it gave a body.
\<close>

datatype http_outcome = RequestException "string option" | Response json

datatype level = WARNING | ERROR

text \<open>
  What an operation does besides returning: the request it sends (method, URL, JSON
  body; headers are left out), the socket message it emits, the time it sleeps (in
  milliseconds), and the warnings and errors it logs (the fixed part of the message;
  info lines are left out).
\<close>

datatype action =
    Http string string json
  | Emit string json
  | Sleep nat
  | Log level string

fun is_http :: "action \<Rightarrow> bool" where
  "is_http (Http m u b) = True"
| "is_http _ = False"

fun is_error_log :: "action \<Rightarrow> bool" where
  "is_error_log (Log ERROR m) = True"
| "is_error_log _ = False"

fun is_emit :: "action \<Rightarrow> bool" where
  "is_emit (Emit e p) = True"
| "is_emit _ = False"

text \<open>\<^verbatim>\<open>if hasattr(e, "response") and e.response is not None: logger.error(...)\<close>\<close>

fun response_log :: "string option \<Rightarrow> action list" where
  "response_log None = []"
| "response_log (Some text) = [Log ERROR (''Response: '' @ text)]"

text \<open>\<^verbatim>\<open>api_url.rstrip("/")\<close>\<close>

definition rstrip_slash :: "string \<Rightarrow> string" where
  "rstrip_slash s = rev (dropWhile (\<lambda>c. c = CHR ''/'') (rev s))"

section \<open>Student: state and socket handlers\<close>

text \<open>
  The fields of \<^verbatim>\<open>Student\<close>. \<open>sio_connected\<close> and \<open>sio_sid\<close> are the state of the
  socket client the student owns: \<^verbatim>\<open>self.sio.connected\<close> and
  \<^verbatim>\<open>self.sio.get_sid("/participant")\<close>. \<open>quiz_data\<close> and \<open>latest_batch_quizzes_id\<close>
  hold whatever JSON arrived, \<open>JNull\<close> for \<^verbatim>\<open>None\<close>. The tracker every student shares
  is passed to the handlers and returned by them.
\<close>

record student =
  student_number :: int
  api_url :: string
  socket_url :: string
  device_id :: string
  sid :: "string option"
  student_id :: "string option"
  socket_token :: "string option"
  connected :: bool
  latest_batch_quizzes_id :: json
  quiz_data :: json
  lesson_id :: "string option"
  disconnect_reason :: "string option"
  sio_connected :: bool
  sio_sid :: "string option"

definition new_student :: "int \<Rightarrow> string \<Rightarrow> string \<Rightarrow> string \<Rightarrow> student" where
  "new_student number url sock uuid =
     \<lparr>student_number = number, api_url = rstrip_slash url, socket_url = sock,
      device_id = uuid, sid = None, student_id = None, socket_token = None,
      connected = False, latest_batch_quizzes_id = JNull, quiz_data = JNull,
      lesson_id = None, disconnect_reason = None,
      sio_connected = False, sio_sid = None\<rparr>"

definition join_payload :: "student \<Rightarrow> json" where
  "join_payload self =
     JObj [(''lesson_id'', json_of_optional_str (lesson_id self)),
           (''user_id'', json_of_optional_str (student_id self)),
           (''role'', JStr ''student''),
           (''access_token'', json_of_optional_str (socket_token self))]"

text \<open>
  \<^verbatim>\<open>on_connect\<close>. \<open>namespace_sid\<close> is what \<^verbatim>\<open>get_sid\<close> gives after the short sleep,
  \<open>emit_ok\<close> whether \<^verbatim>\<open>sio.emit\<close> returned rather than raised (the handler catches
  every exception of the emit and logs it).
\<close>

definition on_connect :: "student \<Rightarrow> string option \<Rightarrow> bool \<Rightarrow> student \<times> action list" where
  "on_connect self namespace_sid emit_ok =
     (let self1 = self\<lparr>connected := True\<rparr> in
      if truthy namespace_sid then
        let self2 = self1\<lparr>sid := namespace_sid\<rparr> in
        if truthy (lesson_id self2) \<and> truthy (student_id self2) \<and> truthy (socket_token self2)
        then (self2, [Sleep 100, Emit ''join_lesson'' (join_payload self2)] @
                     (if emit_ok then [] else [Log ERROR ''failed to emit join_lesson on connect'']))
        else (self2, [Sleep 100])
      else (self1, [Sleep 100, Log WARNING ''connected but namespace sid is None'']))"

text \<open>\<^verbatim>\<open>on_disconnect\<close>; \<open>reason\<close> is the first positional argument or the keyword
  \<^verbatim>\<open>reason\<close>, \<^verbatim>\<open>None\<close> when neither is given.\<close>

definition on_disconnect :: "student \<Rightarrow> string option \<Rightarrow> student \<times> action list" where
  "on_disconnect self reason =
     (let self1 = self\<lparr>disconnect_reason :=
                         Some (case reason of None \<Rightarrow> ''Unknown''
                               | Some r \<Rightarrow> if r \<noteq> [] then r else ''Unknown'')\<rparr>;
          was_connected = connected self1;
          self2 = self1\<lparr>connected := False\<rparr>
      in (self2, if was_connected
                 then [Log WARNING ''DISCONNECTED'', Log WARNING ''Disconnect Reason'',
                       Log WARNING ''State'']
                 else []))"

text \<open>The acknowledgment every known-event handler returns.\<close>

definition ack :: "student \<Rightarrow> json" where
  "ack self = JObj [(''status'', JStr ''received''),
                    (''student_id'', json_of_optional_str (student_id self))]"

text \<open>\<^verbatim>\<open>if self.student_id: <set>.add(self.student_id)\<close>\<close>

definition add_if_seated :: "student \<Rightarrow> string set \<Rightarrow> string set" where
  "add_if_seated self S =
     (case student_id self of
        None \<Rightarrow> S
      | Some i \<Rightarrow> if i \<noteq> [] then insert i S else S)"

definition on_batch_quizzes_created ::
  "event_tracker \<Rightarrow> student \<Rightarrow> json \<Rightarrow> event_tracker \<times> student \<times> (py_error + json)" where
  "on_batch_quizzes_created t self data =
     (let t1 = t\<lparr>batch_quizzes_created := add_if_seated self (batch_quizzes_created t)\<rparr> in
      case py_get data ''batch_quizzes_id'' JNull of
        Inl e \<Rightarrow> (t1, self, Inl e)
      | Inr v \<Rightarrow> (t1, self\<lparr>latest_batch_quizzes_id := v\<rparr>, Inr (ack self)))"

definition on_batch_quizzes_finished ::
  "event_tracker \<Rightarrow> student \<Rightarrow> json \<Rightarrow> event_tracker \<times> student \<times> (py_error + json)" where
  "on_batch_quizzes_finished t self data =
     (t\<lparr>batch_quizzes_finished := add_if_seated self (batch_quizzes_finished t)\<rparr>,
      self, Inr (ack self))"

definition on_batch_quizzes_disclosed ::
  "event_tracker \<Rightarrow> student \<Rightarrow> json \<Rightarrow> event_tracker \<times> student \<times> (py_error + json)" where
  "on_batch_quizzes_disclosed t self data =
     (t\<lparr>batch_quizzes_disclosed := add_if_seated self (batch_quizzes_disclosed t)\<rparr>,
      self, Inr (ack self))"

definition on_batch_quizzes_closed ::
  "event_tracker \<Rightarrow> student \<Rightarrow> json \<Rightarrow> event_tracker \<times> student \<times> (py_error + json)" where
  "on_batch_quizzes_closed t self data =
     (t\<lparr>batch_quizzes_closed := add_if_seated self (batch_quizzes_closed t)\<rparr>,
      self, Inr (ack self))"

definition on_student_points ::
  "event_tracker \<Rightarrow> student \<Rightarrow> json \<Rightarrow> event_tracker \<times> student \<times> (py_error + json)" where
  "on_student_points t self data =
     (let t1 = t\<lparr>student_points := add_if_seated self (student_points t)\<rparr> in
      case py_get data ''points'' (JNum 0) of
        Inl e \<Rightarrow> (t1, self, Inl e)
      | Inr points \<Rightarrow>
          (t1, self, Inr (JObj [(''status'', JStr ''received''),
                                (''student_id'', json_of_optional_str (student_id self)),
                                (''points'', points)])))"

definition on_any_event ::
  "event_tracker \<Rightarrow> student \<Rightarrow> json \<Rightarrow> event_tracker \<times> student \<times> (py_error + json)" where
  "on_any_event t self data = (t, self, Inr (JObj [(''status'', JStr ''received'')]))"

text \<open>The handler table registered in \<^verbatim>\<open>Student.__init__\<close> for server-pushed events:
  the five known names, and the catch-all \<^verbatim>\<open>"*"\<close> for any other.\<close>

definition handle_event ::
  "string \<Rightarrow> event_tracker \<Rightarrow> student \<Rightarrow> json
     \<Rightarrow> event_tracker \<times> student \<times> (py_error + json)" where
  "handle_event ev =
     (if ev = ''batch_quizzes_created'' then on_batch_quizzes_created
      else if ev = ''batch_quizzes_finished'' then on_batch_quizzes_finished
      else if ev = ''batch_quizzes_disclosed'' then on_batch_quizzes_disclosed
      else if ev = ''batch_quizzes_closed'' then on_batch_quizzes_closed
      else if ev = ''student_points'' then on_student_points
      else on_any_event)"

text \<open>
  The population is a list of students; \<^verbatim>\<open>students[i]\<close> receives an event, its handler
  runs on the shared tracker. An exception of a handler stays in the socket library.
\<close>

definition deliver ::
  "string \<Rightarrow> json \<Rightarrow> nat \<Rightarrow> event_tracker \<times> student list \<Rightarrow> event_tracker \<times> student list" where
  "deliver ev data i st =
     (case st of (t, students) \<Rightarrow>
        if i < length students
        then (case handle_event ev t (students ! i) data of
                (t', self', r) \<Rightarrow> (t', students[i := self']))
        else (t, students))"

text \<open>Every identity recorded in the tracker, and every identity a student holds.\<close>

definition recorded_ids :: "event_tracker \<Rightarrow> string set" where
  "recorded_ids t = batch_quizzes_created t \<union> batch_quizzes_finished t \<union>
     batch_quizzes_disclosed t \<union> batch_quizzes_closed t \<union> student_points t"

definition held_ids :: "student list \<Rightarrow> string set" where
  "held_ids students = {i. \<exists>s \<in> set students. student_id s = Some i}"




section \<open>Student: HTTP operations\<close>

text \<open>
  \<^verbatim>\<open>choose_seat\<close> suspends once, in the half-second sleep after a successful claim.
  \<open>choose_seat_request\<close> is the part before the sleep: it either returns (\<open>Returned\<close>)
  or reaches the sleep (\<open>Settling\<close>). \<open>choose_seat_settle\<close> is the part after it.
\<close>

datatype seat_progress = Returned "py_error + bool" | Settling

definition choose_seat_request ::
  "student \<Rightarrow> string \<Rightarrow> http_outcome \<Rightarrow> student \<times> seat_progress \<times> action list" where
  "choose_seat_request self lesson http =
     (let current_sid = (if sio_connected self then sio_sid self else None) in
      if \<not> truthy current_sid
      then (self, Returned (Inr False), [Log ERROR ''has no SID''])
      else if \<not> sio_connected self
      then (self, Returned (Inr False), [Log ERROR ''socket disconnected before choosing seat''])
      else
        let url = api_url self @ ''/api/v3/lessons/'' @ lesson @ ''/choose_seat'';
            payload = JObj [(''serial_number'', JNum (student_number self)),
                            (''sid'', json_of_optional_str current_sid),
                            (''device_id'', JStr (device_id self)),
                            (''is_incognito'', JBool False)];
            req = Http ''POST'' url payload
        in case http of
             RequestException body \<Rightarrow>
               (self, Returned (Inr False),
                [req, Log ERROR ''failed to choose seat''] @ response_log body)
           | Response data \<Rightarrow>
               (case py_getitem data ''student_id'' of
                  Inl e \<Rightarrow> (self, Returned (Inl e), [req])
                | Inr v \<Rightarrow>
                   (case as_optional_str v of
                      Inl e \<Rightarrow> (self, Returned (Inl e), [req])
                    | Inr new_id \<Rightarrow>
                       (case py_get data ''socket_token'' JNull of
                          Inl e \<Rightarrow> (self\<lparr>student_id := new_id\<rparr>, Returned (Inl e), [req])
                        | Inr tv \<Rightarrow>
                           (case as_optional_str tv of
                              Inl e \<Rightarrow> (self\<lparr>student_id := new_id\<rparr>, Returned (Inl e), [req])
                            | Inr tok \<Rightarrow>
                               (self\<lparr>student_id := new_id, socket_token := tok,
                                     lesson_id := Some lesson\<rparr>,
                                Settling, [req]))))))"

definition choose_seat_settle :: "student \<Rightarrow> (py_error + bool) \<times> action list" where
  "choose_seat_settle self =
     (Inr True,
      if \<not> sio_connected self
      then [Log WARNING ''socket disconnected after choosing seat'',
            Log WARNING ''This might be normal if server expects reconnection with token'']
      else [])"

text \<open>The whole call; \<open>during\<close> is what the socket handlers did to this student while
  the call slept.\<close>

definition choose_seat ::
  "student \<Rightarrow> string \<Rightarrow> http_outcome \<Rightarrow> (student \<Rightarrow> student)
     \<Rightarrow> student \<times> (py_error + bool) \<times> action list" where
  "choose_seat self lesson http during =
     (case choose_seat_request self lesson http of
        (self1, Returned r, a) \<Rightarrow> (self1, r, a)
      | (self1, Settling, a) \<Rightarrow>
          (let self2 = during self1 in
           case choose_seat_settle self2 of (r, b) \<Rightarrow> (self2, r, a @ [Sleep 500] @ b)))"

text \<open>\<^verbatim>\<open>get_latest_batch_quiz\<close>; the null sentinel is \<open>JNull\<close>.\<close>

definition get_latest_batch_quiz ::
  "student \<Rightarrow> string \<Rightarrow> http_outcome \<Rightarrow> student \<times> (py_error + json) \<times> action list" where
  "get_latest_batch_quiz self lesson http =
     (case student_id self of
        None \<Rightarrow> (self, Inr JNull, [Log ERROR ''has no student_id''])
      | Some i \<Rightarrow>
          if i = [] then (self, Inr JNull, [Log ERROR ''has no student_id''])
          else
            let url = api_url self @ ''/api/v3/lessons/'' @ lesson @ ''/students/'' @ i @
                      ''/batch_quizzes/latest'';
                req = Http ''GET'' url JNull
            in (case http of
                  RequestException body \<Rightarrow>
                    (self, Inr JNull,
                     [req, Log ERROR ''failed to get batch quiz''] @ response_log body)
                | Response data \<Rightarrow> (self\<lparr>quiz_data := data\<rparr>, Inr data, [req])))"

text \<open>\<^verbatim>\<open>len(x)\<close> and \<^verbatim>\<open>for q in x\<close> on a JSON value.\<close>

fun py_len :: "json \<Rightarrow> py_error + nat" where
  "py_len (JStr s) = Inr (length s)"
| "py_len (JArr xs) = Inr (length xs)"
| "py_len (JObj kvs) = Inr (length kvs)"
| "py_len _ = Inl TypeError"

fun py_iter :: "json \<Rightarrow> py_error + json list" where
  "py_iter (JArr xs) = Inr xs"
| "py_iter (JObj kvs) = Inr (map (\<lambda>kv. JStr (fst kv)) kvs)"
| "py_iter (JStr s) = Inr (map (\<lambda>c. JStr [c]) s)"
| "py_iter _ = Inl TypeError"

text \<open>The random module is a supply of numbers, one taken by each draw.\<close>

fun draw :: "nat list \<Rightarrow> nat \<times> nat list" where
  "draw [] = (0, [])"
| "draw (r # rs) = (r, rs)"

text \<open>\<^verbatim>\<open>random.sample(pool, k)\<close> for \<open>k \<le> length pool\<close>: \<open>k\<close> picks without repetition.\<close>

fun sample :: "nat list \<Rightarrow> nat \<Rightarrow> nat list \<Rightarrow> nat list \<times> nat list" where
  "sample pool 0 rs = ([], rs)"
| "sample pool (Suc k) rs =
     (if pool = [] then ([], rs)
      else case draw rs of (r, rs1) \<Rightarrow>
        (let i = r mod length pool in
         case sample (take i pool @ drop (Suc i) pool) k rs1 of
           (ys, rs2) \<Rightarrow> (pool ! i # ys, rs2)))"

text \<open>A statement that may raise, followed by the rest of the block.\<close>

definition bind_err :: "'e + 'a \<Rightarrow> ('a \<Rightarrow> 'e + 'b) \<Rightarrow> 'e + 'b" where
  "bind_err m f = (case m of Inl e \<Rightarrow> Inl e | Inr x \<Rightarrow> f x)"

text \<open>One round of the loop over the quizzes: the answer synthesized for \<open>quiz\<close>.\<close>

definition answer_entry :: "json \<Rightarrow> nat list \<Rightarrow> json" where
  "answer_entry quiz_id answer_data =
     JObj [(''quiz_id'', quiz_id),
           (''answer_data'', JArr (map (\<lambda>n. JNum (int n)) answer_data))]"

definition answer_for :: "json \<Rightarrow> nat list \<Rightarrow> py_error + (json \<times> nat list)" where
  "answer_for quiz rs =
     bind_err (py_get quiz ''quiz_id'' JNull) (\<lambda>quiz_id.
     bind_err (py_get quiz ''quiz_type'' JNull) (\<lambda>quiz_type.
     bind_err (py_get quiz ''option_list'' (JArr [])) (\<lambda>option_list.
       if quiz_type = JStr ''TRUE_FALSE''
       then (case draw rs of (r, rs1) \<Rightarrow> Inr (answer_entry quiz_id [1 + r mod 2], rs1))
       else if quiz_type = JStr ''SINGLE_SELECT''
       then bind_err (py_len option_list) (\<lambda>n.
              if n = 0 then Inl ValueError
              else (case draw rs of (r, rs1) \<Rightarrow> Inr (answer_entry quiz_id [1 + r mod n], rs1)))
       else if quiz_type = JStr ''MULTIPLE_SELECT''
       then bind_err (py_len option_list) (\<lambda>n.
              (case draw rs of (r, rs1) \<Rightarrow>
                 (let num_selections = r mod (min 3 n + 1) in
                  if num_selections > 0
                  then (case sample [1 ..< n + 1] num_selections rs1 of
                          (ys, rs2) \<Rightarrow> Inr (answer_entry quiz_id ys, rs2))
                  else Inr (answer_entry quiz_id [], rs1))))
       else Inr (answer_entry quiz_id [], rs))))"

fun answer_loop :: "json list \<Rightarrow> nat list \<Rightarrow> py_error + json list" where
  "answer_loop [] rs = Inr []"
| "answer_loop (quiz # quizzes) rs =
     (case answer_for quiz rs of
        Inl e \<Rightarrow> Inl e
      | Inr (a, rs1) \<Rightarrow>
          (case answer_loop quizzes rs1 of Inl e \<Rightarrow> Inl e | Inr answers \<Rightarrow> Inr (a # answers)))"

text \<open>\<^verbatim>\<open>quizzes = self.quiz_data.get("data", {}).get("quizzes", [])\<close> and the loop.\<close>

definition build_answers :: "json \<Rightarrow> nat list \<Rightarrow> py_error + json list" where
  "build_answers qd rs =
     bind_err (py_get qd ''data'' (JObj [])) (\<lambda>d.
     bind_err (py_get d ''quizzes'' (JArr [])) (\<lambda>q.
     bind_err (py_iter q) (\<lambda>quizzes. answer_loop quizzes rs)))"

definition submit_answers ::
  "student \<Rightarrow> string \<Rightarrow> nat list \<Rightarrow> http_outcome \<Rightarrow> (py_error + bool) \<times> action list" where
  "submit_answers self batch_quizzes_id rs http =
     (if \<not> truthy (student_id self) \<or> \<not> json_truthy (quiz_data self)
      then (Inr False, [Log ERROR ''missing data for submission''])
      else
        case build_answers (quiz_data self) rs of
          Inl e \<Rightarrow> (Inl e, [])
        | Inr answers \<Rightarrow>
            let url = api_url self @ ''/api/v3/quizzes/batch_quizzes/'' @ batch_quizzes_id @
                      ''/batch_quizzes_result'';
                payload = JObj [(''student_id'', json_of_optional_str (student_id self)),
                                (''answers'', JArr answers)];
                req = Http ''PUT'' url payload
            in (case http of
                  RequestException body \<Rightarrow>
                    (Inr False, [req, Log ERROR ''failed to submit answers''] @ response_log body)
                | Response data \<Rightarrow> (Inr True, [req])))"

section \<open>Teacher\<close>

record teacher =
  teacher_api_url :: string
  access_token :: string
  room_id :: string
  collection_id :: string
  teacher_lesson_id :: "string option"

definition new_teacher :: "string \<Rightarrow> string \<Rightarrow> string \<Rightarrow> string \<Rightarrow> teacher" where
  "new_teacher url token room collection =
     \<lparr>teacher_api_url = rstrip_slash url, access_token = token, room_id = room,
      collection_id = collection, teacher_lesson_id = None\<rparr>"

definition create_lesson ::
  "teacher \<Rightarrow> http_outcome \<Rightarrow> teacher \<times> (py_error + string option) \<times> action list" where
  "create_lesson self http =
     (let url = teacher_api_url self @ ''/api/v3/rooms/'' @ room_id self @ ''/lessons'';
          req = Http ''POST'' url JNull
      in case http of
           RequestException body \<Rightarrow>
             (self, Inr None, [req, Log ERROR ''Failed to create lesson''] @ response_log body)
         | Response data \<Rightarrow>
             (case bind_err (py_getitem data ''data'') (\<lambda>d.
                   bind_err (py_getitem d ''lesson_id'') as_optional_str) of
                Inl e \<Rightarrow> (self, Inl e, [req])
              | Inr lid \<Rightarrow> (self\<lparr>teacher_lesson_id := lid\<rparr>, Inr lid, [req])))"

text \<open>The fixed three-question payload of \<^verbatim>\<open>create_batch_quizzes\<close>.\<close>

definition quiz_option :: "int \<Rightarrow> string \<Rightarrow> bool \<Rightarrow> bool option \<Rightarrow> json" where
  "quiz_option option_id content is_ai_answer is_answer =
     JObj ([(''option_id'', JNum option_id), (''content'', JStr content),
            (''is_ai_answer'', JBool is_ai_answer)] @
           (case is_answer of None \<Rightarrow> [] | Some b \<Rightarrow> [(''is_answer'', JBool b)]) @
           [(''reason'', JNull)])"

definition quiz ::
  "string \<Rightarrow> string \<Rightarrow> string \<Rightarrow> string \<Rightarrow> string \<Rightarrow> string \<Rightarrow> int \<Rightarrow> json list \<Rightarrow> json" where
  "quiz lesson img option_type collection quiz_type content seq option_list =
     JObj [(''img_url'', JStr (''https://example.com/lesson_id_'' @ lesson @ ''/img/'' @ img)),
           (''source_type'', JStr ''QUIZ_GENERATOR''),
           (''option_type'', JStr option_type),
           (''collection_id'', JStr collection),
           (''quiz_type'', JStr quiz_type),
           (''content'', JStr content),
           (''chirp_id'', JNull),
           (''ai_short_answer'', JNull),
           (''seq'', JNum seq),
           (''option_list'', JArr option_list)]"

definition batch_quizzes_payload :: "teacher \<Rightarrow> string \<Rightarrow> json" where
  "batch_quizzes_payload self lesson =
     JObj [(''quizzes'', JArr
       [quiz lesson ''quiz1.png'' ''TRUE_FALSE'' (collection_id self) ''TRUE_FALSE''
          (''Water boils at 100'' @ [CHR 0xC2, CHR 0xB0] @ ''C at sea level.'') 1
          [quiz_option 1 ''True'' True (Some True),
           quiz_option 2 ''False'' False None],
        quiz lesson ''quiz2.png'' ''ALPHABET'' (collection_id self) ''SINGLE_SELECT''
          ''What is 2 + 2?'' 2
          [quiz_option 1 ''3'' False (Some False),
           quiz_option 2 ''4'' True (Some True),
           quiz_option 3 ''5'' False (Some False)],
        quiz lesson ''quiz3.png'' ''NUMBER'' (collection_id self) ''MULTIPLE_SELECT''
          ''Which of these are prime numbers?'' 3
          [quiz_option 1 ''2'' True None,
           quiz_option 2 ''3'' False None,
           quiz_option 3 ''4'' True None,
           quiz_option 4 ''5'' False None]])]"

definition create_batch_quizzes ::
  "teacher \<Rightarrow> string \<Rightarrow> http_outcome \<Rightarrow> (py_error + string option) \<times> action list" where
  "create_batch_quizzes self lesson http =
     (let url = teacher_api_url self @ ''/api/v3/lessons/'' @ lesson @ ''/quizzes/batch_quizzes'';
          req = Http ''POST'' url (batch_quizzes_payload self lesson)
      in case http of
           RequestException body \<Rightarrow>
             (Inr None, [req, Log ERROR ''Failed to create batch quizzes''] @ response_log body)
         | Response data \<Rightarrow>
             (bind_err (py_getitem data ''data'') (\<lambda>d.
                bind_err (py_getitem d ''batch_quizzes_id'') as_optional_str), [req]))"

definition update_batch_quiz_status ::
  "teacher \<Rightarrow> string \<Rightarrow> string \<Rightarrow> string \<Rightarrow> http_outcome \<Rightarrow> (py_error + bool) \<times> action list" where
  "update_batch_quiz_status self lesson batch_quizzes_id status http =
     (let url = teacher_api_url self @ ''/api/v3/lessons/'' @ lesson @
                ''/quizzes/batch_quizzes/'' @ batch_quizzes_id;
          req = Http ''PUT'' url (JObj [(''status'', JStr status)])
      in case http of
           RequestException body \<Rightarrow>
             (Inr False, [req, Log ERROR ''Failed to update batch quiz status''] @ response_log body)
         | Response data \<Rightarrow> (Inr True, [req]))"

definition disclose_batch_quiz ::
  "teacher \<Rightarrow> string \<Rightarrow> string \<Rightarrow> http_outcome \<Rightarrow> (py_error + bool) \<times> action list" where
  "disclose_batch_quiz self lesson batch_quizzes_id http =
     (let url = teacher_api_url self @ ''/api/v3/lessons/'' @ lesson @
                ''/quizzes/batch_quizzes/'' @ batch_quizzes_id @ ''/disclose'';
          req = Http ''PUT'' url JNull
      in case http of
           RequestException body \<Rightarrow>
             (Inr False, [req, Log ERROR ''Failed to disclose batch quiz''] @ response_log body)
         | Response data \<Rightarrow> (Inr True, [req]))"

definition add_student_points ::
  "teacher \<Rightarrow> string \<Rightarrow> json list \<Rightarrow> http_outcome \<Rightarrow> (py_error + bool) \<times> action list" where
  "add_student_points self lesson students http =
     (let url = teacher_api_url self @ ''/api/v3/lessons/'' @ lesson @ ''/batch_points'';
          req = Http ''PUT'' url (JObj [(''students'', JArr students)])
      in case http of
           RequestException body \<Rightarrow>
             (Inr False, [req, Log ERROR ''Failed to add points''] @ response_log body)
         | Response data \<Rightarrow> (Inr True, [req]))"

section \<open>The orchestrated run\<close>

text \<open>
  \<^verbatim>\<open>run_simulation\<close> is one coroutine. The socket library calls the students' handlers
  only while it is suspended, at an \<^verbatim>\<open>await\<close>. What the library does at each such point is
  an input of the model: a list of inbound happenings, each on the student at an index of
  \<^verbatim>\<open>students\<close>. The HTTP calls block the coroutine, so nothing is delivered during them.
\<close>

datatype inbound =
    SocketUp nat "string option" bool
  | SocketDown nat "string option"
  | ServerEvent nat string json

datatype await_point =
    AfterLesson | Connecting nat | AfterConnect | Seating nat | BetweenBatches nat
  | AfterSeating | BeforePacing | Pacing | AfterBatchCreated | FetchingQuiz | AfterFetch
  | Submitting | AfterSubmit | AfterFinish | AfterDisclose | AfterClose | AfterPoints
  | Disconnecting

text \<open>
  What a run does, in order: the actions of the operations it calls, the students it
  constructs, the connects it starts, the seat batches it processes, the verifications
  it asks of the tracker (event name, expected identities, total, and the population as
  it is at that moment), the lines a verification logs, and the disconnects.
\<close>

datatype event =
    Act action
  | Spawn int
  | ConnectCall int
  | SeatBatch nat "int list"
  | Verify string "string set" int "student list"
  | Diagnostics "diag list"
  | DisconnectCall int

record config =
  conf_api_url :: string
  conf_socket_url :: string
  conf_room_id :: string
  conf_teacher_token :: string
  conf_collection_id :: string
  num_students :: int
  wait_before_create_batch_quizzes :: nat

text \<open>
  The outside world of one run: the outcome of every HTTP call (per student number for
  the students' calls), whether \<^verbatim>\<open>sio.connect\<close> raised, the values the uuid and random
  modules give, and what the socket library delivers at each await.
\<close>

record env =
  uuid4 :: "int \<Rightarrow> string"
  lesson_http :: http_outcome
  connect_raises :: "int \<Rightarrow> bool"
  seat_http :: "int \<Rightarrow> http_outcome"
  batch_http :: http_outcome
  quiz_http :: "int \<Rightarrow> http_outcome"
  submit_http :: "int \<Rightarrow> http_outcome"
  submit_random :: "int \<Rightarrow> nat list"
  finish_http :: http_outcome
  disclose_http :: http_outcome
  close_http :: http_outcome
  points_http :: http_outcome
  points_random :: "int \<Rightarrow> nat"
  world :: "await_point \<Rightarrow> inbound list"

record sim =
  sim_students :: "student list"
  sim_tracker :: event_tracker
  sim_trace :: "event list"

definition traced :: "event list \<Rightarrow> sim \<Rightarrow> sim" where
  "traced es st = st\<lparr>sim_trace := sim_trace st @ es\<rparr>"

definition apply_inbound :: "inbound \<Rightarrow> sim \<Rightarrow> sim" where
  "apply_inbound ib st =
     (case ib of
        SocketUp i namespace_sid emit_ok \<Rightarrow>
          if i < length (sim_students st)
          then (case on_connect ((sim_students st ! i)\<lparr>sio_connected := True,
                                                        sio_sid := namespace_sid\<rparr>)
                       namespace_sid emit_ok of
                  (self', acts) \<Rightarrow>
                    traced (map Act acts) (st\<lparr>sim_students := (sim_students st)[i := self']\<rparr>))
          else st
      | SocketDown i reason \<Rightarrow>
          if i < length (sim_students st)
          then (case on_disconnect ((sim_students st ! i)\<lparr>sio_connected := False,
                                                           sio_sid := None\<rparr>) reason of
                  (self', acts) \<Rightarrow>
                    traced (map Act acts) (st\<lparr>sim_students := (sim_students st)[i := self']\<rparr>))
          else st
      | ServerEvent i ev data \<Rightarrow>
          (case deliver ev data i (sim_tracker st, sim_students st) of
             (t', students') \<Rightarrow> st\<lparr>sim_students := students', sim_tracker := t'\<rparr>))"

fun apply_world :: "inbound list \<Rightarrow> sim \<Rightarrow> sim" where
  "apply_world [] st = st"
| "apply_world (ib # ibs) st = apply_world ibs (apply_inbound ib st)"

text \<open>\<^verbatim>\<open>await asyncio.sleep(...)\<close> in the coroutine of the run.\<close>

definition sleep :: "nat \<Rightarrow> inbound list \<Rightarrow> sim \<Rightarrow> sim" where
  "sleep ms w st = apply_world w (traced [Act (Sleep ms)] st)"

subsection \<open>Connecting\<close>

text \<open>One round of the polling loop of \<^verbatim>\<open>connect_socket\<close>: the check a student makes.\<close>

definition connect_check :: "student \<Rightarrow> student \<times> bool" where
  "connect_check self =
     (if connected self \<and> truthy (sio_sid self)
      then (self\<lparr>sid := sio_sid self\<rparr>, True)
      else (self, False))"

text \<open>The students at the indices \<open>pending\<close> make the check; the result is the population
  and the indices still waiting.\<close>

fun poll_round :: "nat list \<Rightarrow> student list \<Rightarrow> student list \<times> nat list" where
  "poll_round [] students = (students, [])"
| "poll_round (i # pending) students =
     (case connect_check (students ! i) of
        (self', ok) \<Rightarrow>
          (case poll_round pending (students[i := self']) of
             (students', waiting) \<Rightarrow> (students', if ok then waiting else i # waiting)))"

text \<open>\<^verbatim>\<open>for _ in range(50)\<close> of every waiting student, the rounds a tenth of a second
  apart; the result names the students that ran out of rounds.\<close>

fun poll_loop :: "env \<Rightarrow> nat \<Rightarrow> nat \<Rightarrow> nat list \<Rightarrow> sim \<Rightarrow> sim \<times> nat list" where
  "poll_loop e 0 k pending st = (st, pending)"
| "poll_loop e (Suc n) k pending st =
     (if pending = [] then (st, [])
      else case poll_round pending (sim_students st) of
        (students', waiting) \<Rightarrow>
          if waiting = [] then (st\<lparr>sim_students := students'\<rparr>, [])
          else poll_loop e n (Suc k) waiting
                 (sleep 100 (world e (Connecting (Suc k))) (st\<lparr>sim_students := students'\<rparr>)))"

text \<open>
  \<^verbatim>\<open>asyncio.gather\<close> of \<^verbatim>\<open>connect_socket\<close> over all students. A student whose
  \<^verbatim>\<open>sio.connect\<close> raised returns false at once; the others poll. The result is the state
  and \<^verbatim>\<open>connect_results\<close>, one boolean per student.
\<close>

definition connect_phase :: "env \<Rightarrow> sim \<Rightarrow> sim \<times> bool list" where
  "connect_phase e st =
     (let indices = [0 ..< length (sim_students st)];
          raised = filter (\<lambda>i. connect_raises e (student_number (sim_students st ! i))) indices;
          st1 = traced (map (\<lambda>s. ConnectCall (student_number s)) (sim_students st) @
                        map (\<lambda>i. Act (Log ERROR ''connection error'')) raised) st;
          st2 = apply_world (world e (Connecting 0)) st1
      in case poll_loop e 50 0 (filter (\<lambda>i. i \<notin> set raised) indices) st2 of
           (st3, timed_out) \<Rightarrow>
             (traced (map (\<lambda>i. Act (Log ERROR ''connection timeout'')) timed_out) st3,
              map (\<lambda>i. i \<notin> set raised \<and> i \<notin> set timed_out) indices))"

subsection \<open>Choosing seats\<close>

text \<open>\<^verbatim>\<open>range(start, stop, step)\<close> for a positive step.\<close>

function py_range :: "nat \<Rightarrow> nat \<Rightarrow> nat \<Rightarrow> nat list" where
  "py_range i n step = (if step = 0 \<or> n \<le> i then [] else i # py_range (i + step) n step)"
  by pat_completeness auto
termination
  by (relation "measure (\<lambda>(i, n, step). n - i)") auto

text \<open>
  The calls of one batch run up to their first suspension in the order of the batch:
  each sends its request and, when the claim succeeded, goes to sleep. \<open>seat_requests\<close>
  gives the population, the result of every call that returned, and the indices that sleep.
\<close>

fun seat_requests ::
  "env \<Rightarrow> string \<Rightarrow> nat list \<Rightarrow> sim \<Rightarrow> sim \<times> (py_error + bool) list \<times> nat list" where
  "seat_requests e lesson [] st = (st, [], [])"
| "seat_requests e lesson (i # batch) st =
     (case choose_seat_request (sim_students st ! i) lesson
             (seat_http e (student_number (sim_students st ! i))) of
        (self', progress, acts) \<Rightarrow>
          (let st1 = traced (map Act acts) (st\<lparr>sim_students := (sim_students st)[i := self']\<rparr>)
           in case progress of
                Returned r \<Rightarrow>
                  (case seat_requests e lesson batch st1 of
                     (st2, results, settling) \<Rightarrow> (st2, r # results, settling))
              | Settling \<Rightarrow>
                  (case seat_requests e lesson batch (traced [Act (Sleep 500)] st1) of
                     (st2, results, settling) \<Rightarrow> (st2, results, i # settling))))"

fun seat_settles :: "nat list \<Rightarrow> sim \<Rightarrow> sim \<times> (py_error + bool) list" where
  "seat_settles [] st = (st, [])"
| "seat_settles (i # settling) st =
     (case choose_seat_settle (sim_students st ! i) of
        (r, acts) \<Rightarrow>
          (case seat_settles settling (traced (map Act acts) st) of
             (st1, results) \<Rightarrow> (st1, r # results)))"

text \<open>The body of the loop for the batch that starts at \<open>i\<close>: the number seated in it.\<close>

definition seat_batch :: "env \<Rightarrow> string \<Rightarrow> nat list \<Rightarrow> nat \<Rightarrow> sim \<Rightarrow> sim \<times> nat" where
  "seat_batch e lesson connected_students i st =
     (let batch_size = 10;
          batch = take batch_size (drop i connected_students);
          batch_num = i div batch_size + 1;
          st1 = traced [SeatBatch batch_num
                          (map (\<lambda>j. student_number (sim_students st ! j)) batch)] st
      in case seat_requests e lesson batch st1 of
           (st2, returned, settling) \<Rightarrow>
             (let st3 = (if settling = [] then st2
                         else apply_world (world e (Seating batch_num)) st2)
              in case seat_settles settling st3 of
                   (st4, settled) \<Rightarrow>
                     (let batch_seated = length (filter (\<lambda>r. r = Inr True) (returned @ settled));
                          st5 = (if i + batch_size < length connected_students
                                 then sleep 1000 (world e (BetweenBatches batch_num)) st4
                                 else st4)
                      in (st5, batch_seated))))"

text \<open>\<^verbatim>\<open>for i in range(0, len(connected_students), batch_size)\<close>\<close>

fun seat_loop :: "env \<Rightarrow> string \<Rightarrow> nat list \<Rightarrow> nat list \<Rightarrow> sim \<times> nat \<Rightarrow> sim \<times> nat" where
  "seat_loop e lesson connected_students [] acc = acc"
| "seat_loop e lesson connected_students (i # starts) acc =
     (case acc of (st, seated_count) \<Rightarrow>
        (case seat_batch e lesson connected_students i st of
           (st', batch_seated) \<Rightarrow>
             seat_loop e lesson connected_students starts (st', seated_count + batch_seated)))"

text \<open>\<^verbatim>\<open>connected_students = [s for s in students if s.connected]\<close>: the list holds the
  student objects themselves, here their indices in \<^verbatim>\<open>students\<close>.\<close>

definition still_connected_students :: "student list \<Rightarrow> nat list" where
  "still_connected_students students =
     filter (\<lambda>i. connected (students ! i)) [0 ..< length students]"

definition seat_phase :: "env \<Rightarrow> string \<Rightarrow> sim \<Rightarrow> sim \<times> nat" where
  "seat_phase e lesson st =
     (let connected_students = still_connected_students (sim_students st)
      in seat_loop e lesson connected_students
           (py_range 0 (length connected_students) 10) (st, 0))"

subsection \<open>After the seats\<close>

text \<open>\<^verbatim>\<open>{s.student_id for s in students if s.student_id}\<close>\<close>

definition seated_id :: "student \<Rightarrow> string option" where
  "seated_id s = (case student_id s of
                    None \<Rightarrow> None
                  | Some i \<Rightarrow> if i \<noteq> [] then Some i else None)"

definition seated_student_ids :: "student list \<Rightarrow> string set" where
  "seated_student_ids students = set (List.map_filter seated_id students)"

text \<open>\<^verbatim>\<open>', '.join(status)\<close>\<close>

fun join_comma :: "string list \<Rightarrow> string" where
  "join_comma [] = []"
| "join_comma [x] = x"
| "join_comma (x # y # ys) = x @ '', '' @ join_comma (y # ys)"

text \<open>The warnings about the students who did not choose a seat;
  \<^verbatim>\<open>students[student_num - 1]\<close> is read for each of them.\<close>

definition seat_report :: "config \<Rightarrow> student list \<Rightarrow> event list" where
  "seat_report cfg students =
     (let seated_student_numbers =
            set (map student_number (filter (\<lambda>s. truthy (student_id s)) students));
          not_seated = filter (\<lambda>n. n \<notin> seated_student_numbers) [1 .. num_students cfg]
      in if not_seated = [] then []
         else Act (Log WARNING ''Students who did not choose seats'') #
              map (\<lambda>student_num.
                     (let student = students ! nat (student_num - 1);
                          status = (if \<not> connected student then [''not connected''] else []) @
                                   (if \<not> truthy (student_id student) then [''no student_id''] else []) @
                                   (if \<not> truthy (sid student) then [''no sid''] else [])
                      in Act (Log WARNING (if status \<noteq> [] then join_comma status
                                           else ''unknown reason''))))
                  not_seated)"

definition disconnected_report :: "nat \<Rightarrow> student list \<Rightarrow> event list" where
  "disconnected_report seated_count students =
     (let still_connected = length (filter connected students)
      in if still_connected < seated_count
         then Act (Log WARNING ''students disconnected after choosing seat'') #
              (if filter (\<lambda>s. truthy (student_id s) \<and> \<not> connected s) students \<noteq> []
               then [Act (Log WARNING ''Disconnected students (had seat)'')] else [])
         else [])"

subsection \<open>The quiz\<close>

text \<open>A step of the run either raises, leaving the state it reached, or gives the next
  state.\<close>

type_synonym step_result = "(py_error \<times> sim) + sim"

text \<open>
  A verification point: the expected audience is computed from the population as it is
  now and passed to \<^verbatim>\<open>assert_all_received\<close> with \<^verbatim>\<open>num_students\<close>; the boolean it returns
  is dropped.
\<close>

definition verify :: "string \<Rightarrow> int \<Rightarrow> sim \<Rightarrow> step_result" where
  "verify event_name total_students st =
     (let seated = seated_student_ids (sim_students st)
      in case assert_all_received (sim_tracker st) event_name seated (Some total_students) of
           Inl err \<Rightarrow> Inl (err, st)
         | Inr (t', ok, log) \<Rightarrow>
             Inr (traced [Verify event_name seated total_students (sim_students st),
                          Diagnostics log]
                    (st\<lparr>sim_tracker := t'\<rparr>)))"

text \<open>A call of the teacher whose boolean the run does not look at.\<close>

definition teacher_call :: "(py_error + bool) \<times> action list \<Rightarrow> sim \<Rightarrow> step_result" where
  "teacher_call ra st =
     (case ra of (r, acts) \<Rightarrow>
        (case r of
           Inl err \<Rightarrow> Inl (err, traced (map Act acts) st)
         | Inr b \<Rightarrow> Inr (traced (map Act acts) st)))"

text \<open>\<^verbatim>\<open>get_latest_batch_quiz\<close> of the students at \<open>indices\<close>, each in a thread; the gather
  keeps whatever they return or raise.\<close>

fun fetch_quizzes :: "env \<Rightarrow> string \<Rightarrow> nat list \<Rightarrow> sim \<Rightarrow> sim" where
  "fetch_quizzes e lesson [] st = st"
| "fetch_quizzes e lesson (i # indices) st =
     (case get_latest_batch_quiz (sim_students st ! i) lesson
             (quiz_http e (student_number (sim_students st ! i))) of
        (self', r, acts) \<Rightarrow>
          fetch_quizzes e lesson indices
            (traced (map Act acts) (st\<lparr>sim_students := (sim_students st)[i := self']\<rparr>)))"

fun submit_all :: "env \<Rightarrow> string \<Rightarrow> nat list \<Rightarrow> sim \<Rightarrow> sim \<times> (py_error + bool) list" where
  "submit_all e batch_quizzes_id [] st = (st, [])"
| "submit_all e batch_quizzes_id (i # indices) st =
     (case submit_answers (sim_students st ! i) batch_quizzes_id
             (submit_random e (student_number (sim_students st ! i)))
             (submit_http e (student_number (sim_students st ! i))) of
        (r, acts) \<Rightarrow>
          (case submit_all e batch_quizzes_id indices (traced (map Act acts) st) of
             (st1, results) \<Rightarrow> (st1, r # results)))"

definition fetch_and_submit :: "env \<Rightarrow> string \<Rightarrow> string \<Rightarrow> sim \<Rightarrow> sim" where
  "fetch_and_submit e lesson batch_quizzes_id st =
     (let seated = filter (\<lambda>i. truthy (student_id (sim_students st ! i)))
                     [0 ..< length (sim_students st)];
          st1 = apply_world (world e FetchingQuiz) (fetch_quizzes e lesson seated st);
          st2 = sleep 1000 (world e AfterFetch) st1;
          with_quiz = filter (\<lambda>i. json_truthy (quiz_data (sim_students st2 ! i)))
                        [0 ..< length (sim_students st2)]
      in case submit_all e batch_quizzes_id with_quiz st2 of
           (st3, submit_results) \<Rightarrow>
             sleep 2000 (world e AfterSubmit) (apply_world (world e Submitting) st3))"

text \<open>The list of points of step 9, \<^verbatim>\<open>random.randint(10, 20)\<close> for each seated student.\<close>

definition points_for :: "env \<Rightarrow> student list \<Rightarrow> json list" where
  "points_for e students =
     map (\<lambda>s. JObj [(''student_id'', json_of_optional_str (student_id s)),
                     (''points'', JNum (10 + int (points_random e (student_number s) mod 11)))])
         (filter (\<lambda>s. truthy (student_id s)) students)"

text \<open>\<^verbatim>\<open>Student.disconnect\<close> of every student.\<close>

definition disconnect_all :: "env \<Rightarrow> sim \<Rightarrow> sim" where
  "disconnect_all e st =
     apply_world (world e Disconnecting)
       (traced (map (\<lambda>s. DisconnectCall (student_number s))
                    (filter sio_connected (sim_students st)))
          (st\<lparr>sim_students :=
                map (\<lambda>s. if sio_connected s then s\<lparr>sio_connected := False, sio_sid := None\<rparr> else s)
                    (sim_students st)\<rparr>))"

text \<open>How a run ended: at one of its three \<^verbatim>\<open>return\<close> statements, at its last line, or
  with an exception that left \<^verbatim>\<open>run_simulation\<close>.\<close>

datatype outcome = NoLesson | NoConnection | NoBatch | Completed | Raised py_error

text \<open>Steps 5 to 10, once the batch exists.\<close>

definition after_batch ::
  "config \<Rightarrow> env \<Rightarrow> teacher \<Rightarrow> string \<Rightarrow> string \<Rightarrow> sim \<Rightarrow> step_result" where
  "after_batch cfg e tch lesson batch_quizzes_id st =
     bind_err (verify ''batch_quizzes_created'' (num_students cfg)
                 (sleep 3000 (world e AfterBatchCreated) st)) (\<lambda>st1.
     bind_err (teacher_call (update_batch_quiz_status tch lesson batch_quizzes_id ''FINISH''
                               (finish_http e))
                 (fetch_and_submit e lesson batch_quizzes_id st1)) (\<lambda>st2.
     bind_err (verify ''batch_quizzes_finished'' (num_students cfg)
                 (sleep 3000 (world e AfterFinish) st2)) (\<lambda>st3.
     bind_err (teacher_call (disclose_batch_quiz tch lesson batch_quizzes_id (disclose_http e))
                 st3) (\<lambda>st4.
     bind_err (verify ''batch_quizzes_disclosed'' (num_students cfg)
                 (sleep 3000 (world e AfterDisclose) st4)) (\<lambda>st5.
     bind_err (teacher_call (update_batch_quiz_status tch lesson batch_quizzes_id ''CLOSE''
                               (close_http e)) st5) (\<lambda>st6.
     bind_err (verify ''batch_quizzes_closed'' (num_students cfg)
                 (sleep 3000 (world e AfterClose) st6)) (\<lambda>st7.
     bind_err (teacher_call (add_student_points tch lesson (points_for e (sim_students st7))
                               (points_http e)) st7) (\<lambda>st8.
     bind_err (verify ''student_points'' (num_students cfg)
                 (sleep 3000 (world e AfterPoints) st8)) (\<lambda>st9.
     Inr (disconnect_all e st9))))))))))"

text \<open>Step 4 and what follows it.\<close>

definition quiz_phase :: "config \<Rightarrow> env \<Rightarrow> teacher \<Rightarrow> string \<Rightarrow> sim \<Rightarrow> outcome \<times> sim" where
  "quiz_phase cfg e tch lesson st =
     (case create_batch_quizzes tch lesson (batch_http e) of
        (r, acts) \<Rightarrow>
          (let st1 = traced (map Act acts) st
           in case r of
                Inl err \<Rightarrow> (Raised err, st1)
              | Inr created \<Rightarrow>
                  (case created of
                     None \<Rightarrow>
                       (NoBatch, traced [Act (Log ERROR ''Failed to create batch quizzes. Aborting.'')] st1)
                   | Some b \<Rightarrow>
                       if b = []
                       then (NoBatch,
                             traced [Act (Log ERROR ''Failed to create batch quizzes. Aborting.'')] st1)
                       else (case after_batch cfg e tch lesson b st1 of
                               Inl (err, st2) \<Rightarrow> (Raised err, st2)
                             | Inr st2 \<Rightarrow> (Completed, st2)))))"

text \<open>\<^verbatim>\<open>for i in range(1, num_students + 1): students.append(Student(i, ...))\<close>\<close>

definition spawn_students :: "config \<Rightarrow> env \<Rightarrow> sim \<Rightarrow> sim" where
  "spawn_students cfg e st =
     traced (map Spawn [1 .. num_students cfg])
       (st\<lparr>sim_students :=
             map (\<lambda>i. new_student i (conf_api_url cfg) (conf_socket_url cfg) (uuid4 e i))
                 [1 .. num_students cfg]\<rparr>)"

text \<open>Step 3 and the waits before step 4, once some student is connected.\<close>

definition before_quiz :: "config \<Rightarrow> env \<Rightarrow> string \<Rightarrow> sim \<Rightarrow> sim" where
  "before_quiz cfg e lesson st4 =
     (case seat_phase e lesson (sleep 2000 (world e AfterConnect) st4) of
        (st6, seated_count) \<Rightarrow>
          (let st7 = traced (seat_report cfg (sim_students st6)) st6;
               st8 = sleep 2000 (world e AfterSeating) st7;
               st9 = traced (disconnected_report seated_count (sim_students st8)) st8;
               st10 = sleep 2000 (world e BeforePacing) st9
           in if wait_before_create_batch_quizzes cfg > 0
              then sleep (wait_before_create_batch_quizzes cfg) (world e Pacing) st10
              else st10))"

text \<open>Step 2 and what follows it, once the lesson exists.\<close>

definition classroom ::
  "config \<Rightarrow> env \<Rightarrow> teacher \<Rightarrow> string \<Rightarrow> sim \<Rightarrow> outcome \<times> sim" where
  "classroom cfg e tch lesson st =
     (let st3 = spawn_students cfg e (sleep 2000 (world e AfterLesson) st)
      in case connect_phase e st3 of
           (st4, connect_results) \<Rightarrow>
             (let connected_count = length (filter (\<lambda>result. result) connect_results)
              in if connected_count = 0
                 then (NoConnection,
                       traced [Act (Log ERROR ''No students connected. Check socket URL and configuration.'')] st4)
                 else quiz_phase cfg e tch lesson (before_quiz cfg e lesson st4)))"

text \<open>The start of a run: an empty tracker, no student yet, nothing done.\<close>

definition initial_sim :: sim where
  "initial_sim = \<lparr>sim_students = [], sim_tracker = new_tracker, sim_trace = []\<rparr>"

definition run_simulation :: "config \<Rightarrow> env \<Rightarrow> outcome \<times> sim" where
  "run_simulation cfg e =
     (let tch = new_teacher (conf_api_url cfg) (conf_teacher_token cfg) (conf_room_id cfg)
                  (conf_collection_id cfg);
          st0 = initial_sim
      in case create_lesson tch (lesson_http e) of
           (tch1, r, acts) \<Rightarrow>
             (let st1 = traced (map Act acts) st0
              in case r of
                   Inl err \<Rightarrow> (Raised err, st1)
                 | Inr created \<Rightarrow>
                     (case created of
                        None \<Rightarrow>
                          (NoLesson,
                           traced [Act (Log ERROR ''Failed to create lesson. Aborting simulation.'')] st1)
                      | Some lesson \<Rightarrow>
                          if lesson = []
                          then (NoLesson,
                                traced [Act (Log ERROR ''Failed to create lesson. Aborting simulation.'')] st1)
                          else classroom cfg e tch1 lesson st1)))"

section \<open>Reading a trace\<close>



text \<open>The events that are a step of the run itself: every HTTP request, and everything
  that is not an action of an operation or of a handler.\<close>

fun landmark :: "event \<Rightarrow> bool" where
  "landmark (Act (Http m u b)) = True"
| "landmark (Act a) = False"
| "landmark ev = True"

text \<open>The events of the phases after the batch was created: verifications and
  disconnects.\<close>

fun is_verdict :: "event \<Rightarrow> bool" where
  "is_verdict (Verify name expected n snapshot) = True"
| "is_verdict (Diagnostics log) = True"
| "is_verdict (DisconnectCall n) = True"
| "is_verdict ev = False"



section \<open>Concrete inputs\<close>

text \<open>A tracker in which A, B and D received the first event.\<close>

definition tracker_abd :: event_tracker where
  "tracker_abd = new_tracker\<lparr>batch_quizzes_created := {''A'', ''B'', ''D''}\<rparr>"

text \<open>A student who claimed a seat, and one who connected but did not.\<close>

definition seated_ann :: student where
  "seated_ann = (new_student 1 ''http://localhost:8000/'' ''http://localhost:8000'' ''device-1'')
     \<lparr>sid := Some ''sid-1'', student_id := Some ''ann'', socket_token := Some ''tok-ann'',
      connected := True, lesson_id := Some ''L1'', sio_connected := True,
      sio_sid := Some ''sid-1''\<rparr>"

definition unseated_bob :: student where
  "unseated_bob = (new_student 2 ''http://localhost:8000/'' ''http://localhost:8000'' ''device-2'')
     \<lparr>sid := Some ''sid-2'', connected := True, sio_connected := True,
      sio_sid := Some ''sid-2''\<rparr>"

definition bell_json :: json where
  "bell_json = JObj [(''batch_quizzes_id'', JStr ''B1'')]"

text \<open>The transport of a student goes away.\<close>

definition drop_transport :: "student \<Rightarrow> student" where
  "drop_transport s = s\<lparr>connected := False, sio_connected := False, sio_sid := None\<rparr>"

text \<open>Responses of the service, and a teacher.\<close>

definition seat_granted :: json where
  "seat_granted = JObj [(''student_id'', JStr ''bob''), (''socket_token'', JStr ''tok-bob''),
                        (''seat_number'', JNum 2)]"

definition lesson_created :: json where
  "lesson_created = JObj [(''data'', JObj [(''lesson_id'', JStr ''L1'')])]"

definition quiz_json :: json where
  "quiz_json = JObj [(''data'', JObj [(''quizzes'', JArr
     [JObj [(''quiz_id'', JStr ''q1''), (''quiz_type'', JStr ''TRUE_FALSE''),
            (''option_list'', JArr [JNum 1, JNum 2])]])])]"

definition teacher_tess :: teacher where
  "teacher_tess = new_teacher ''http://localhost:8000'' ''token'' ''room-1'' ''collection-1''"

definition ann_with_quiz :: student where
  "ann_with_quiz = seated_ann\<lparr>quiz_data := quiz_json\<rparr>"

text \<open>A configuration, a world in which the first student connects at once, and a
  population of 25 connected students.\<close>

definition conf_one :: config where
  "conf_one = \<lparr>conf_api_url = ''http://localhost:8000'', conf_socket_url = ''http://localhost:8000'',
     conf_room_id = ''room-1'', conf_teacher_token = ''token'', conf_collection_id = ''collection-1'',
     num_students = 1, wait_before_create_batch_quizzes = 0\<rparr>"

fun world_one :: "await_point \<Rightarrow> inbound list" where
  "world_one (Connecting k) = (if k = 0 then [SocketUp 0 (Some ''sid-1'') True] else [])"
| "world_one p = []"

definition env_no_batch :: env where
  "env_no_batch = \<lparr>uuid4 = (\<lambda>i. ''device''), lesson_http = Response lesson_created,
     connect_raises = (\<lambda>i. False), seat_http = (\<lambda>i. Response seat_granted),
     batch_http = RequestException None, quiz_http = (\<lambda>i. RequestException None),
     submit_http = (\<lambda>i. RequestException None), submit_random = (\<lambda>i. []),
     finish_http = Response JNull, disclose_http = Response JNull, close_http = Response JNull,
     points_http = Response JNull, points_random = (\<lambda>i. 0), world = world_one\<rparr>"


section \<open>Concrete runs\<close>


text \<open>The lesson cannot be created; no student can connect.\<close>

definition env_no_lesson :: env where
  "env_no_lesson = env_no_batch\<lparr>lesson_http := RequestException (Some ''503'')\<rparr>"

definition env_unreachable :: env where
  "env_unreachable = env_no_batch\<lparr>connect_raises := (\<lambda>i. True), world := (\<lambda>p. [])\<rparr>"









section \<open>Properties of the tracker\<close>

lemma getattr_tracker_kinds:
  "name \<in> set event_kinds \<Longrightarrow> \<exists>S. getattr_tracker t name = Some S"
  by (auto simp: event_kinds_def getattr_tracker_def)

lemma missing_reported_append:
  "missing_reported (xs @ ys) = missing_reported xs \<union> missing_reported ys"
  by (induction xs rule: missing_reported.induct) auto

lemma unexpected_reported_append:
  "unexpected_reported (xs @ ys) = unexpected_reported xs \<union> unexpected_reported ys"
  by (induction xs rule: unexpected_reported.induct) auto

text \<open>
  C1. For each of the five event kinds and every expected set, the verification returns
  true exactly when the recorded set of that kind equals the expected set, so a strict
  subset or superset gives false; and when it returns false the log reports as missing
  exactly the expected identities that were not recorded, and as unexpected exactly the
  recorded identities that were not expected.
\<close>

theorem assert_all_received_exact:
  assumes kind: "getattr_tracker t name = Some recorded"
    and fin: "finite recorded" "finite expected"
  shows "\<exists>t' log. assert_all_received t name expected total_students
            = Inr (t', recorded = expected, log)
          \<and> (recorded \<noteq> expected \<longrightarrow>
               missing_reported log = expected - recorded
             \<and> unexpected_reported log = recorded - expected)"
proof (cases "recorded = expected")
  case True
  then show ?thesis using kind
    by (simp add: assert_all_received_def Let_def)
next
  case False
  have m: "set (sorted_list_of_set (expected - recorded)) = expected - recorded"
    using fin by simp
  have u: "set (sorted_list_of_set (recorded - expected)) = recorded - expected"
    using fin by simp
  show ?thesis using kind False m u
    by (simp add: assert_all_received_def Let_def
        missing_reported_append unexpected_reported_append)
qed

lemma set_neqI: "x \<notin> A \<Longrightarrow> x \<in> B \<Longrightarrow> A \<noteq> B"
  by blast

theorem assert_all_received_exact_witness:
  "\<exists>t' log. assert_all_received tracker_abd ''batch_quizzes_created'' {''A'', ''B'', ''C''} (Some 3)
       = Inr (t', False, log)
     \<and> missing_reported log = {''C''} \<and> unexpected_reported log = {''D''}"
proof -
  have kind: "getattr_tracker tracker_abd ''batch_quizzes_created'' = Some {''A'', ''B'', ''D''}"
    by (simp add: tracker_abd_def new_tracker_def getattr_tracker_def)
  have c: "''C'' \<notin> {''A'', ''B'', ''D''}" "''C'' \<in> {''A'', ''B'', ''C''}" by simp_all
  have ne: "{''A'', ''B'', ''D''} \<noteq> {''A'', ''B'', ''C''}"
    by (rule set_neqI [OF c])
  have m: "{''A'', ''B'', ''C''} - {''A'', ''B'', ''D''} = {''C''}"
    by (simp add: insert_Diff_if)
  have u: "{''A'', ''B'', ''D''} - {''A'', ''B'', ''C''} = {''D''}"
    by (simp add: insert_Diff_if)
  show ?thesis
    using assert_all_received_exact [OF kind, of "{''A'', ''B'', ''C''}" "Some 3"] ne m u
    by simp
qed

text \<open>
  C10. Verification is read-only: for each of the five event kinds the call returns, and
  the tracker after the call is the tracker before it, all five sets unchanged; so the
  same verification repeated on the tracker it left gives the same result.
\<close>

theorem assert_all_received_read_only:
  assumes "name \<in> set event_kinds"
  shows "\<exists>t' b log. assert_all_received t name expected total_students = Inr (t', b, log)
          \<and> t' = t
          \<and> batch_quizzes_created t' = batch_quizzes_created t
          \<and> batch_quizzes_finished t' = batch_quizzes_finished t
          \<and> batch_quizzes_disclosed t' = batch_quizzes_disclosed t
          \<and> batch_quizzes_closed t' = batch_quizzes_closed t
          \<and> student_points t' = student_points t
          \<and> assert_all_received t' name expected total_students = Inr (t', b, log)"
proof -
  obtain S where "getattr_tracker t name = Some S"
    using getattr_tracker_kinds [OF assms] by blast
  then show ?thesis
    by (auto simp: assert_all_received_def Let_def)
qed

theorem assert_all_received_read_only_witness:
  "\<exists>b log. assert_all_received tracker_abd ''batch_quizzes_created'' {''A'', ''B'', ''C''} (Some 3)
      = Inr (tracker_abd, b, log)"
proof -
  have "''batch_quizzes_created'' \<in> set event_kinds" by (simp add: event_kinds_def)
  from assert_all_received_read_only [OF this, of tracker_abd "{''A'', ''B'', ''C''}" "Some 3"]
  show ?thesis by blast
qed

section \<open>Properties of the event handlers\<close>

lemma add_if_seated_unseated: "\<not> truthy (student_id s) \<Longrightarrow> add_if_seated s S = S"
  by (cases "student_id s") (auto simp: add_if_seated_def)

lemma add_if_seated_sub: "S \<subseteq> add_if_seated s S"
  by (auto simp: add_if_seated_def split: option.splits)

lemma add_if_seated_held: "add_if_seated s S \<subseteq> S \<union> {i. student_id s = Some i}"
  by (auto simp: add_if_seated_def split: option.splits)

lemma add_if_seated_sid: "add_if_seated (s\<lparr>sid := a, sio_sid := b\<rparr>) S = add_if_seated s S"
  by (simp add: add_if_seated_def)

lemmas handler_defs = on_batch_quizzes_created_def on_batch_quizzes_finished_def
      on_batch_quizzes_disclosed_def on_batch_quizzes_closed_def on_student_points_def
      on_any_event_def

text \<open>What a handler does to the tracker: one of the five sets gets add_if_seated, or nothing.\<close>

lemma handle_event_tracker:
  "fst (handle_event ev t s data) =
     (if ev = ''batch_quizzes_created''
      then t\<lparr>batch_quizzes_created := add_if_seated s (batch_quizzes_created t)\<rparr>
      else if ev = ''batch_quizzes_finished''
      then t\<lparr>batch_quizzes_finished := add_if_seated s (batch_quizzes_finished t)\<rparr>
      else if ev = ''batch_quizzes_disclosed''
      then t\<lparr>batch_quizzes_disclosed := add_if_seated s (batch_quizzes_disclosed t)\<rparr>
      else if ev = ''batch_quizzes_closed''
      then t\<lparr>batch_quizzes_closed := add_if_seated s (batch_quizzes_closed t)\<rparr>
      else if ev = ''student_points''
      then t\<lparr>student_points := add_if_seated s (student_points t)\<rparr>
      else t)"
  by (simp add: handle_event_def handler_defs Let_def split: sum.splits)

lemma handle_event_student_id:
  "student_id (fst (snd (handle_event ev t s data))) = student_id s"
  by (simp add: handle_event_def handler_defs Let_def split: sum.splits)

lemma handle_event_kind_sets:
  assumes "getattr_tracker t name = Some S"
    and "getattr_tracker (fst (handle_event ev t s data)) name = Some S'"
  shows "S' = S \<or> S' = add_if_seated s S"
  using assms unfolding handle_event_tracker getattr_tracker_def
  by (simp split: if_splits)


lemma handle_event_recorded_ids:
  "recorded_ids (fst (handle_event ev t s data)) \<subseteq> recorded_ids t \<union> {x. student_id s = Some x}"
proof -
  have a: "add_if_seated s S \<subseteq> S \<union> {x. student_id s = Some x}" for S
    by (rule add_if_seated_held)
  consider "ev = ''batch_quizzes_created''" | "ev = ''batch_quizzes_finished''"
    | "ev = ''batch_quizzes_disclosed''" | "ev = ''batch_quizzes_closed''"
    | "ev = ''student_points''" | "ev \<notin> set event_kinds"
    by (auto simp: event_kinds_def)
  then show ?thesis
  proof cases
    case 1
    then show ?thesis using a [of "batch_quizzes_created t"]
      by (auto simp: handle_event_tracker recorded_ids_def)
  next
    case 2
    then show ?thesis using a [of "batch_quizzes_finished t"]
      by (auto simp: handle_event_tracker recorded_ids_def)
  next
    case 3
    then show ?thesis using a [of "batch_quizzes_disclosed t"]
      by (auto simp: handle_event_tracker recorded_ids_def)
  next
    case 4
    then show ?thesis using a [of "batch_quizzes_closed t"]
      by (auto simp: handle_event_tracker recorded_ids_def)
  next
    case 5
    then show ?thesis using a [of "student_points t"]
      by (auto simp: handle_event_tracker recorded_ids_def)
  next
    case 6
    then show ?thesis
      by (auto simp: handle_event_tracker event_kinds_def)
  qed
qed

text \<open>
  C9. An event of any name is delivered to \<^verbatim>\<open>students[i]\<close>. If that student's identity is
  null the tracker is unchanged. For each of the five sets, the set only grows and every
  identity added is the non-null identity of the receiving student; the socket ids of the
  student play no part in what is recorded. The handler leaves the identities of the
  population unchanged, so a tracker that holds only identities held by students still
  does so after the event.
\<close>

theorem only_seated_recorded:
  assumes "deliver ev data i (t, students) = (t', students')"
  shows "(i < length students \<and> student_id (students ! i) = None \<longrightarrow> t' = t)
       \<and> (\<forall>name S S'. getattr_tracker t name = Some S \<and> getattr_tracker t' name = Some S'
            \<longrightarrow> S \<subseteq> S' \<and> (\<forall>x \<in> S' - S. i < length students
                              \<and> student_id (students ! i) = Some x \<and> x \<noteq> []))
       \<and> (i < length students \<longrightarrow>
            (\<forall>a b. fst (handle_event ev t ((students ! i)\<lparr>sid := a, sio_sid := b\<rparr>) data) = t'))
       \<and> held_ids students' = held_ids students
       \<and> (recorded_ids t \<subseteq> held_ids students \<longrightarrow> recorded_ids t' \<subseteq> held_ids students')"
proof (cases "i < length students")
  case False
  with assms have "t' = t" "students' = students" by (auto simp: deliver_def)
  then show ?thesis using False by auto
next
  case True
  define s where "s = students ! i"
  from assms True have t': "t' = fst (handle_event ev t s data)"
    and ss': "students' = students[i := fst (snd (handle_event ev t s data))]"
    by (auto simp: deliver_def s_def split: prod.splits)
  have c1: "student_id s = None \<longrightarrow> t' = t"
    unfolding t' handle_event_tracker by (simp add: add_if_seated_def)
  have c2: "S \<subseteq> S' \<and> (\<forall>x \<in> S' - S. student_id s = Some x \<and> x \<noteq> [])"
    if "getattr_tracker t name = Some S" "getattr_tracker t' name = Some S'" for name S S'
    using handle_event_kind_sets [OF that(1) that(2) [unfolded t']]
    by (auto simp: add_if_seated_def split: option.splits if_splits)
  have c3: "fst (handle_event ev t (s\<lparr>sid := a, sio_sid := b\<rparr>) data) = t'" for a b
    unfolding t' handle_event_tracker by (simp add: add_if_seated_def)
  have sid: "student_id (fst (snd (handle_event ev t s data))) = student_id (students ! i)"
    by (simp add: handle_event_student_id s_def)
  have "map student_id students' = map student_id students"
    unfolding ss' using sid True by (simp add: map_update list_update_same_conv)
  then have "student_id ` set students' = student_id ` set students"
    by (metis set_map)
  then have c4: "held_ids students' = held_ids students"
    by (auto simp: held_ids_def image_iff) (metis image_iff)+
  have sub: "recorded_ids t' \<subseteq> recorded_ids t \<union> {x. student_id s = Some x}"
    unfolding t' by (rule handle_event_recorded_ids)
  have "{x. student_id s = Some x} \<subseteq> held_ids students"
    using True by (auto simp: held_ids_def s_def)
  with sub c4 have c5: "recorded_ids t \<subseteq> held_ids students \<longrightarrow> recorded_ids t' \<subseteq> held_ids students'"
    by blast
  show ?thesis using c1 c2 c3 c4 c5 True unfolding s_def by blast
qed

theorem only_seated_recorded_witness:
  "fst (deliver ''batch_quizzes_created'' bell_json 1 (new_tracker, [seated_ann, unseated_bob]))
     = new_tracker
   \<and> recorded_ids (fst (deliver ''batch_quizzes_created'' bell_json 0
         (new_tracker, [seated_ann, unseated_bob])))
       \<subseteq> held_ids [seated_ann, unseated_bob]
   \<and> batch_quizzes_created (fst (deliver ''batch_quizzes_created'' bell_json 0
         (new_tracker, [seated_ann, unseated_bob]))) = {''ann''}"
proof -
  let ?st = "(new_tracker, [seated_ann, unseated_bob])"
  have bob: "student_id ([seated_ann, unseated_bob] ! 1) = None"
    by (simp add: unseated_bob_def new_student_def)
  have empty: "recorded_ids new_tracker \<subseteq> held_ids [seated_ann, unseated_bob]"
    by (simp add: recorded_ids_def new_tracker_def)
  note inst = only_seated_recorded [OF prod.collapse [symmetric]]
  have a: "fst (deliver ''batch_quizzes_created'' bell_json 1 ?st) = new_tracker"
    using inst [where ev = "''batch_quizzes_created''" and data = bell_json and i = 1
        and t = new_tracker and students = "[seated_ann, unseated_bob]"] bob
    by simp
  have b: "recorded_ids (fst (deliver ''batch_quizzes_created'' bell_json 0 ?st))
       \<subseteq> held_ids [seated_ann, unseated_bob]"
    using inst [where ev = "''batch_quizzes_created''" and data = bell_json and i = 0
        and t = new_tracker and students = "[seated_ann, unseated_bob]"] empty
    by blast
  have c: "batch_quizzes_created (fst (deliver ''batch_quizzes_created'' bell_json 0 ?st)) = {''ann''}"
    by (simp add: deliver_def handle_event_def on_batch_quizzes_created_def bell_json_def
        add_if_seated_def seated_ann_def new_student_def new_tracker_def)
  show ?thesis using a b c by simp
qed

section \<open>Properties of the connection handlers\<close>


lemma on_disconnect_silent:
  "filter is_emit (snd (on_disconnect s r)) = []"
  "filter is_http (snd (on_disconnect s r)) = []"
  by (simp_all add: on_disconnect_def Let_def)


lemma on_connect_no_http: "filter is_http (snd (on_connect s n ok)) = []"
  by (simp add: on_connect_def Let_def)





section \<open>Properties of the HTTP operations\<close>

text \<open>
  C6. Without a live transport identity (the socket is not connected, or it has no
  namespace sid) \<^verbatim>\<open>choose_seat\<close> returns false and its only action is the error line: no
  request is sent. With one, when the response carries the identity, the call sends its
  one request and returns true whatever happened to the transport during the settle
  sleep; a transport found down afterwards is logged as a warning and no error is logged.
\<close>

theorem choose_seat_fail_fast_and_settle:
  "(\<not> (sio_connected s \<and> truthy (sio_sid s)) \<longrightarrow>
       choose_seat s lesson http during = (s, Inr False, [Log ERROR ''has no SID'']))
   \<and> (sio_connected s \<and> truthy (sio_sid s)
        \<and> py_getitem data ''student_id'' = Inr v \<and> as_optional_str v = Inr new_id
        \<and> py_get data ''socket_token'' JNull = Inr tv \<and> as_optional_str tv = Inr tok \<longrightarrow>
       (\<exists>s' acts. choose_seat s lesson (Response data) during = (s', Inr True, acts)
           \<and> student_id s' = student_id (during (s\<lparr>student_id := new_id, socket_token := tok,
                                                   lesson_id := Some lesson\<rparr>))
           \<and> filter is_error_log acts = []
           \<and> length (filter is_http acts) = 1
           \<and> (\<not> sio_connected s' \<longrightarrow>
                 Log WARNING ''socket disconnected after choosing seat'' \<in> set acts)))"
  by (auto simp: choose_seat_def choose_seat_request_def choose_seat_settle_def Let_def)

theorem choose_seat_fail_fast_and_settle_witness:
  "choose_seat (drop_transport unseated_bob) ''L1'' (Response seat_granted) id
     = (drop_transport unseated_bob, Inr False, [Log ERROR ''has no SID''])
   \<and> (\<exists>s' acts. choose_seat unseated_bob ''L1'' (Response seat_granted) drop_transport
          = (s', Inr True, acts)
        \<and> filter is_error_log acts = []
        \<and> Log WARNING ''socket disconnected after choosing seat'' \<in> set acts)"
proof -
  have a: "\<not> (sio_connected (drop_transport unseated_bob)
            \<and> truthy (sio_sid (drop_transport unseated_bob)))"
    by (simp add: drop_transport_def)
  have b: "sio_connected unseated_bob \<and> truthy (sio_sid unseated_bob)
        \<and> py_getitem seat_granted ''student_id'' = Inr (JStr ''bob'')
        \<and> as_optional_str (JStr ''bob'') = Inr (Some ''bob'')
        \<and> py_get seat_granted ''socket_token'' JNull = Inr (JStr ''tok-bob'')
        \<and> as_optional_str (JStr ''tok-bob'') = Inr (Some ''tok-bob'')"
    by (simp add: unseated_bob_def new_student_def seat_granted_def)
  have c: "\<not> sio_connected (drop_transport x)" for x
    by (simp add: drop_transport_def)
  have d: "choose_seat unseated_bob ''L1'' (Response seat_granted) drop_transport = (s', r, acts)
        \<Longrightarrow> \<not> sio_connected s'" for s' r acts
    using b c by (auto simp: choose_seat_def choose_seat_request_def choose_seat_settle_def Let_def)
  show ?thesis
    using choose_seat_fail_fast_and_settle [where s = "drop_transport unseated_bob"
        and lesson = "''L1''" and http = "Response seat_granted" and during = id]
      choose_seat_fail_fast_and_settle [where s = unseated_bob and data = seat_granted
        and v = "JStr ''bob''" and new_id = "Some ''bob''" and tv = "JStr ''tok-bob''"
        and tok = "Some ''tok-bob''" and lesson = "''L1''" and during = drop_transport]
      a b d
    by blast
qed

text \<open>
  C5, as the code has it. When the HTTP call of an operation raises a
  \<^verbatim>\<open>RequestException\<close>, the operation logs an error and returns its sentinel (\<^verbatim>\<open>None\<close> or
  \<^verbatim>\<open>False\<close>) without raising; for \<^verbatim>\<open>submit_answers\<close> this is once the answers were
  built, which happens before the request.
\<close>

theorem request_exception_gives_sentinel:
  "(\<exists>acts. create_lesson tch (RequestException body) = (tch, Inr None, acts)
        \<and> (\<exists>a \<in> set acts. is_error_log a))
   \<and> (\<exists>acts. create_batch_quizzes tch lesson (RequestException body) = (Inr None, acts)
        \<and> (\<exists>a \<in> set acts. is_error_log a))
   \<and> (\<exists>acts. update_batch_quiz_status tch lesson batch status (RequestException body)
          = (Inr False, acts) \<and> (\<exists>a \<in> set acts. is_error_log a))
   \<and> (\<exists>acts. disclose_batch_quiz tch lesson batch (RequestException body) = (Inr False, acts)
        \<and> (\<exists>a \<in> set acts. is_error_log a))
   \<and> (\<exists>acts. add_student_points tch lesson pts (RequestException body) = (Inr False, acts)
        \<and> (\<exists>a \<in> set acts. is_error_log a))
   \<and> (\<exists>acts. choose_seat s lesson (RequestException body) during = (s, Inr False, acts)
        \<and> (\<exists>a \<in> set acts. is_error_log a))
   \<and> (\<exists>acts. get_latest_batch_quiz s lesson (RequestException body) = (s, Inr JNull, acts)
        \<and> (\<exists>a \<in> set acts. is_error_log a))
   \<and> (build_answers (quiz_data s) rs = Inr answers \<longrightarrow>
        (\<exists>acts. submit_answers s batch rs (RequestException body) = (Inr False, acts)
        \<and> (\<exists>a \<in> set acts. is_error_log a)))"
proof -
  have 1: "\<exists>acts. create_lesson tch (RequestException body) = (tch, Inr None, acts)
        \<and> (\<exists>a \<in> set acts. is_error_log a)"
    by (simp add: create_lesson_def Let_def)
  have 2: "\<exists>acts. create_batch_quizzes tch lesson (RequestException body) = (Inr None, acts)
        \<and> (\<exists>a \<in> set acts. is_error_log a)"
    by (simp add: create_batch_quizzes_def Let_def)
  have 3: "\<exists>acts. update_batch_quiz_status tch lesson batch status (RequestException body)
          = (Inr False, acts) \<and> (\<exists>a \<in> set acts. is_error_log a)"
    by (simp add: update_batch_quiz_status_def Let_def)
  have 4: "\<exists>acts. disclose_batch_quiz tch lesson batch (RequestException body) = (Inr False, acts)
        \<and> (\<exists>a \<in> set acts. is_error_log a)"
    by (simp add: disclose_batch_quiz_def Let_def)
  have 5: "\<exists>acts. add_student_points tch lesson pts (RequestException body) = (Inr False, acts)
        \<and> (\<exists>a \<in> set acts. is_error_log a)"
    by (simp add: add_student_points_def Let_def)
  have 6: "\<exists>acts. choose_seat s lesson (RequestException body) during = (s, Inr False, acts)
        \<and> (\<exists>a \<in> set acts. is_error_log a)"
    by (simp add: choose_seat_def choose_seat_request_def Let_def)
  have 7: "\<exists>acts. get_latest_batch_quiz s lesson (RequestException body) = (s, Inr JNull, acts)
        \<and> (\<exists>a \<in> set acts. is_error_log a)"
    by (simp add: get_latest_batch_quiz_def Let_def split: option.splits)
  have 8: "build_answers (quiz_data s) rs = Inr answers \<longrightarrow>
        (\<exists>acts. submit_answers s batch rs (RequestException body) = (Inr False, acts)
        \<and> (\<exists>a \<in> set acts. is_error_log a))"
    by (simp add: submit_answers_def Let_def)
  show ?thesis using 1 2 3 4 5 6 7 8 by blast
qed

theorem request_exception_gives_sentinel_witness:
  "(\<exists>acts. create_lesson teacher_tess (RequestException (Some ''503''))
             = (teacher_tess, Inr None, acts))
   \<and> (\<exists>acts. submit_answers ann_with_quiz ''B1'' [3] (RequestException None)
          = (Inr False, acts))"
proof -
  have "\<exists>answers. build_answers (quiz_data ann_with_quiz) [3] = Inr answers"
    by (simp add: ann_with_quiz_def build_answers_def bind_err_def quiz_json_def
        answer_for_def Let_def)
  then obtain answers where h: "build_answers (quiz_data ann_with_quiz) [3] = Inr answers" ..
  note t = request_exception_gives_sentinel [where tch = teacher_tess and s = ann_with_quiz
      and rs = "[3]" and answers = answers and batch = "''B1''"]
  have a: "\<exists>acts. create_lesson teacher_tess (RequestException (Some ''503''))
             = (teacher_tess, Inr None, acts)"
    using t [where body = "Some ''503''", THEN conjunct1] by fast
  have b: "\<exists>acts. submit_answers ann_with_quiz ''B1'' [3] (RequestException None)
          = (Inr False, acts)"
    using t [where body = None, THEN conjunct2, THEN conjunct2, THEN conjunct2, THEN conjunct2,
        THEN conjunct2, THEN conjunct2, THEN conjunct2, THEN mp, OF h] by fast
  show ?thesis using a b by (rule conjI)
qed

text \<open>The claim as written fails: a successful response that lacks the expected field
  makes \<^verbatim>\<open>create_lesson\<close>, \<^verbatim>\<open>create_batch_quizzes\<close> and \<^verbatim>\<open>choose_seat\<close> raise KeyError.\<close>

theorem missing_field_raises_counterexample:
  "fst (snd (create_lesson teacher_tess (Response (JObj [(''status'', JStr ''ok'')]))))
     = Inl KeyError
   \<and> fst (create_batch_quizzes teacher_tess ''L1'' (Response (JObj [(''data'', JObj [])])))
     = Inl KeyError
   \<and> fst (snd (choose_seat unseated_bob ''L1'' (Response (JObj [(''seat_number'', JNum 2)])) id))
     = Inl KeyError"
  by (simp add: create_lesson_def create_batch_quizzes_def choose_seat_def
      choose_seat_request_def bind_err_def unseated_bob_def new_student_def Let_def)

section \<open>Properties of the seat loop\<close>



















section \<open>Properties of the run\<close>

subsection \<open>What the phases before the quiz leave in the trace\<close>

lemma poll_loop_unfold:
  "0 < n \<Longrightarrow> poll_loop e n k pending st =
     (if pending = [] then (st, [])
      else case poll_round pending (sim_students st) of
        (students', waiting) \<Rightarrow>
          if waiting = [] then (st\<lparr>sim_students := students'\<rparr>, [])
          else poll_loop e (n - 1) (Suc k) waiting
                 (sleep 100 (world e (Connecting (Suc k))) (st\<lparr>sim_students := students'\<rparr>)))"
  by (cases n) (auto split: prod.splits)

lemma initial_trace: "sim_trace initial_sim = []"
  by (simp add: initial_sim_def)

lemma landmark_acts: "filter landmark (map Act acts) = map Act (filter is_http acts)"
proof (induction acts)
  case Nil
  then show ?case by simp
next
  case (Cons a acts)
  then show ?case by (cases a) simp_all
qed

lemma landmark_traced:
  "filter landmark (sim_trace (traced es st)) = filter landmark (sim_trace st) @ filter landmark es"
  by (simp add: traced_def)

lemma landmark_apply_inbound:
  "filter landmark (sim_trace (apply_inbound ib st)) = filter landmark (sim_trace st)"
  by (cases ib)
     (simp_all add: apply_inbound_def split_beta landmark_traced landmark_acts
        on_connect_no_http on_disconnect_silent)

lemma landmark_apply_world:
  "filter landmark (sim_trace (apply_world w st)) = filter landmark (sim_trace st)"
  by (induction w arbitrary: st) (simp_all add: landmark_apply_inbound)

lemma landmark_sleep:
  "filter landmark (sim_trace (sleep ms w st)) = filter landmark (sim_trace st)"
  by (simp add: sleep_def landmark_apply_world landmark_traced)

lemma landmark_poll_loop:
  "filter landmark (sim_trace (fst (poll_loop e n k pending st))) = filter landmark (sim_trace st)"
proof (induction n arbitrary: k pending st)
  case 0
  then show ?case by simp
next
  case (Suc n)
  show ?case
    by (simp add: split_beta Suc.IH landmark_sleep)
qed

lemma landmark_connect_phase:
  "filter landmark (sim_trace (fst (connect_phase e st))) =
     filter landmark (sim_trace st) @ map (\<lambda>s. ConnectCall (student_number s)) (sim_students st)"
  by (simp add: connect_phase_def Let_def split_beta landmark_traced landmark_poll_loop
      landmark_apply_world filter_map comp_def)

lemma landmark_spawn_students:
  "filter landmark (sim_trace (spawn_students cfg e st)) =
     filter landmark (sim_trace st) @ map Spawn [1 .. num_students cfg]"
  by (simp add: spawn_students_def landmark_traced filter_map comp_def)

lemma spawn_students_numbers:
  "map student_number (sim_students (spawn_students cfg e st)) = [1 .. num_students cfg]"
  by (simp add: spawn_students_def traced_def new_student_def comp_def)

text \<open>
  C8. If \<^verbatim>\<open>create_lesson\<close> returns \<^verbatim>\<open>None\<close>, the run ends at its first \<^verbatim>\<open>return\<close>: its
  whole trace is the actions of that call and the abort line, and no student exists. If
  the lesson exists and no \<^verbatim>\<open>connect_socket\<close> returned true, the run ends at its second
  \<^verbatim>\<open>return\<close>: the only steps it took are the request that created the lesson, the
  construction of the students and their connects, so no seat batch, no other request,
  no verification and no disconnect.
\<close>

theorem fatal_preconditions:
  assumes "create_lesson (new_teacher (conf_api_url cfg) (conf_teacher_token cfg)
               (conf_room_id cfg) (conf_collection_id cfg)) (lesson_http e) = (tch1, r, acts)"
  shows "(r = Inr None \<longrightarrow>
            run_simulation cfg e =
              (NoLesson, \<lparr>sim_students = [], sim_tracker = new_tracker,
                         sim_trace = map Act acts @
                           [Act (Log ERROR ''Failed to create lesson. Aborting simulation.'')]\<rparr>))
       \<and> (\<forall>lesson. r = Inr (Some lesson) \<and> lesson \<noteq> []
             \<and> filter (\<lambda>result. result)
                  (snd (connect_phase e (spawn_students cfg e
                     (sleep 2000 (world e AfterLesson) (traced (map Act acts) initial_sim))))) = []
            \<longrightarrow> fst (run_simulation cfg e) = NoConnection
              \<and> filter landmark (sim_trace (snd (run_simulation cfg e))) =
                  map Act (filter is_http acts) @ map Spawn [1 .. num_students cfg] @
                  map ConnectCall [1 .. num_students cfg])"
proof -
  have a: "r = Inr None \<longrightarrow>
            run_simulation cfg e =
              (NoLesson, \<lparr>sim_students = [], sim_tracker = new_tracker,
                         sim_trace = map Act acts @
                           [Act (Log ERROR ''Failed to create lesson. Aborting simulation.'')]\<rparr>)"
    using assms by (simp add: run_simulation_def Let_def traced_def initial_sim_def)
  have b: "fst (run_simulation cfg e) = NoConnection
              \<and> filter landmark (sim_trace (snd (run_simulation cfg e))) =
                  map Act (filter is_http acts) @ map Spawn [1 .. num_students cfg] @
                  map ConnectCall [1 .. num_students cfg]"
    if r: "r = Inr (Some lesson)" and l: "lesson \<noteq> []"
      and z: "filter (\<lambda>result. result)
                  (snd (connect_phase e (spawn_students cfg e
                     (sleep 2000 (world e AfterLesson) (traced (map Act acts) initial_sim))))) = []"
    for lesson
  proof -
    let ?st3 = "spawn_students cfg e
                  (sleep 2000 (world e AfterLesson) (traced (map Act acts) initial_sim))"
    have run: "run_simulation cfg e =
        (NoConnection,
         traced [Act (Log ERROR ''No students connected. Check socket URL and configuration.'')]
           (fst (connect_phase e ?st3)))"
      using assms r l z
      by (simp add: run_simulation_def classroom_def Let_def split_beta)
    have "map (\<lambda>s. ConnectCall (student_number s)) (sim_students ?st3)
            = map ConnectCall (map student_number (sim_students ?st3))"
      by simp
    also have "\<dots> = map ConnectCall [1 .. num_students cfg]"
      by (simp only: spawn_students_numbers)
    finally have calls: "map (\<lambda>s. ConnectCall (student_number s)) (sim_students ?st3)
            = map ConnectCall [1 .. num_students cfg]" .
    have "filter landmark (sim_trace (fst (connect_phase e ?st3))) =
            map Act (filter is_http acts) @ map Spawn [1 .. num_students cfg] @
            map ConnectCall [1 .. num_students cfg]"
      by (simp add: landmark_connect_phase calls landmark_spawn_students landmark_sleep
          landmark_traced landmark_acts initial_trace)
    then show ?thesis by (simp add: run landmark_traced)
  qed
  show ?thesis using a b by blast
qed

theorem fatal_preconditions_witness:
  "fst (run_simulation conf_one env_no_lesson) = NoLesson
   \<and> sim_students (snd (run_simulation conf_one env_no_lesson)) = []
   \<and> filter landmark (sim_trace (snd (run_simulation conf_one env_no_lesson)))
       = [Act (Http ''POST'' ''http://localhost:8000/api/v3/rooms/room-1/lessons'' JNull)]
   \<and> fst (run_simulation conf_one env_unreachable) = NoConnection
   \<and> filter landmark (sim_trace (snd (run_simulation conf_one env_unreachable)))
       = [Act (Http ''POST'' ''http://localhost:8000/api/v3/rooms/room-1/lessons'' JNull),
          Spawn 1, ConnectCall 1]"
proof -
  let ?tch = "new_teacher (conf_api_url conf_one) (conf_teacher_token conf_one)
                (conf_room_id conf_one) (conf_collection_id conf_one)"
  let ?req = "Http ''POST'' ''http://localhost:8000/api/v3/rooms/room-1/lessons'' JNull"
  have l1: "create_lesson ?tch (lesson_http env_no_lesson)
      = (?tch, Inr None, [?req, Log ERROR ''Failed to create lesson'', Log ERROR ''Response: 503''])"
    by (simp add: create_lesson_def env_no_lesson_def env_no_batch_def conf_one_def
        new_teacher_def rstrip_slash_def Let_def)
  have l2: "create_lesson ?tch (lesson_http env_unreachable)
      = (?tch\<lparr>teacher_lesson_id := Some ''L1''\<rparr>, Inr (Some ''L1''), [?req])"
    by (simp add: create_lesson_def env_unreachable_def env_no_batch_def conf_one_def
        new_teacher_def rstrip_slash_def Let_def lesson_created_def bind_err_def)
  have z: "filter (\<lambda>result. result)
             (snd (connect_phase env_unreachable (spawn_students conf_one env_unreachable
                (sleep 2000 (world env_unreachable AfterLesson)
                   (traced (map Act [?req]) initial_sim))))) = []"
    by (simp add: connect_phase_def spawn_students_def sleep_def traced_def initial_sim_def
        env_unreachable_def env_no_batch_def conf_one_def new_student_def Let_def
        poll_loop_unfold upto.simps)
  have a: "run_simulation conf_one env_no_lesson =
              (NoLesson, \<lparr>sim_students = [], sim_tracker = new_tracker,
                 sim_trace = map Act [?req, Log ERROR ''Failed to create lesson'',
                                      Log ERROR ''Response: 503''] @
                   [Act (Log ERROR ''Failed to create lesson. Aborting simulation.'')]\<rparr>)"
    using fatal_preconditions [OF l1, THEN conjunct1] by simp
  have b: "fst (run_simulation conf_one env_unreachable) = NoConnection
         \<and> filter landmark (sim_trace (snd (run_simulation conf_one env_unreachable))) =
             map Act (filter is_http [?req]) @ map Spawn [1 .. num_students conf_one] @
             map ConnectCall [1 .. num_students conf_one]"
    using fatal_preconditions [OF l2, THEN conjunct2, THEN spec, of "''L1''"] z by simp
  have n: "[1 .. num_students conf_one] = [1]"
    by (simp add: conf_one_def upto.simps)
  show ?thesis using a b n by simp
qed

subsection \<open>Verifications and disconnects\<close>

lemma verdict_acts: "filter is_verdict (map Act acts) = []"
  by (induction acts) simp_all

lemma verdict_traced_acts:
  "filter is_verdict (sim_trace (traced (map Act acts) st)) = filter is_verdict (sim_trace st)"
  by (simp add: traced_def verdict_acts)

lemma verdict_apply_inbound:
  "filter is_verdict (sim_trace (apply_inbound ib st)) = filter is_verdict (sim_trace st)"
  by (cases ib) (simp_all add: apply_inbound_def split_beta verdict_traced_acts)

lemma verdict_apply_world:
  "filter is_verdict (sim_trace (apply_world w st)) = filter is_verdict (sim_trace st)"
  by (induction w arbitrary: st) (simp_all add: verdict_apply_inbound)

lemma verdict_sleep:
  "filter is_verdict (sim_trace (sleep ms w st)) = filter is_verdict (sim_trace st)"
  by (simp add: sleep_def verdict_apply_world traced_def)

lemma verdict_poll_loop:
  "filter is_verdict (sim_trace (fst (poll_loop e n k pending st))) = filter is_verdict (sim_trace st)"
proof (induction n arbitrary: k pending st)
  case 0
  then show ?case by simp
next
  case (Suc n)
  show ?case by (simp add: split_beta Suc.IH verdict_sleep)
qed

lemma verdict_connect_phase:
  "filter is_verdict (sim_trace (fst (connect_phase e st))) = filter is_verdict (sim_trace st)"
  by (simp add: connect_phase_def Let_def split_beta traced_def verdict_poll_loop
      verdict_apply_world filter_map comp_def)

lemma verdict_spawn_students:
  "filter is_verdict (sim_trace (spawn_students cfg e st)) = filter is_verdict (sim_trace st)"
  by (simp add: spawn_students_def traced_def filter_map comp_def)

lemma verdict_seat_requests:
  "filter is_verdict (sim_trace (fst (seat_requests e lesson batch st)))
     = filter is_verdict (sim_trace st)"
proof (induction batch arbitrary: st)
  case Nil
  then show ?case by simp
next
  case (Cons i batch)
  show ?case
    by (simp add: split_beta Let_def Cons.IH verdict_traced_acts traced_def
        split: seat_progress.splits)
qed

lemma verdict_seat_settles:
  "filter is_verdict (sim_trace (fst (seat_settles settling st)))
     = filter is_verdict (sim_trace st)"
proof (induction settling arbitrary: st)
  case Nil
  then show ?case by simp
next
  case (Cons i settling)
  show ?case by (simp add: split_beta Cons.IH verdict_traced_acts)
qed

lemma verdict_seat_batch:
  "filter is_verdict (sim_trace (fst (seat_batch e lesson cs i st)))
     = filter is_verdict (sim_trace st)"
  by (simp add: seat_batch_def Let_def split_beta verdict_sleep verdict_apply_world
      verdict_seat_settles verdict_seat_requests traced_def)

lemma verdict_seat_loop:
  "filter is_verdict (sim_trace (fst (seat_loop e lesson cs starts (st, c))))
     = filter is_verdict (sim_trace st)"
proof (induction starts arbitrary: st c)
  case Nil
  then show ?case by simp
next
  case (Cons i starts)
  show ?case by (simp add: split_beta Cons.IH verdict_seat_batch)
qed

lemma verdict_seat_phase:
  "filter is_verdict (sim_trace (fst (seat_phase e lesson st))) = filter is_verdict (sim_trace st)"
  by (simp add: seat_phase_def Let_def verdict_seat_loop)

lemma verdict_seat_report: "filter is_verdict (seat_report cfg students) = []"
  by (simp add: seat_report_def Let_def filter_map comp_def)

lemma verdict_disconnected_report: "filter is_verdict (disconnected_report c students) = []"
  by (simp add: disconnected_report_def Let_def)

lemma verdict_before_quiz:
  "filter is_verdict (sim_trace (before_quiz cfg e lesson st)) = filter is_verdict (sim_trace st)"
  by (simp add: before_quiz_def Let_def split_beta verdict_sleep verdict_seat_phase traced_def
      verdict_seat_report verdict_disconnected_report)

lemma quiz_phase_no_batch:
  assumes "fst (quiz_phase cfg e tch lesson st) = NoBatch"
  shows "filter is_verdict (sim_trace (snd (quiz_phase cfg e tch lesson st)))
           = filter is_verdict (sim_trace st)"
  using assms
  by (auto simp: quiz_phase_def Let_def split_beta verdict_traced_acts traced_def verdict_acts
      split: sum.splits option.splits if_splits prod.splits)

lemma classroom_no_batch:
  assumes "fst (classroom cfg e tch lesson st) = NoBatch"
  shows "filter is_verdict (sim_trace (snd (classroom cfg e tch lesson st)))
           = filter is_verdict (sim_trace st)"
proof -
  let ?st3 = "spawn_students cfg e (sleep 2000 (world e AfterLesson) st)"
  let ?st11 = "before_quiz cfg e lesson (fst (connect_phase e ?st3))"
  have c: "classroom cfg e tch lesson st = quiz_phase cfg e tch lesson ?st11"
    using assms by (auto simp: classroom_def Let_def split_beta split: if_splits)
  have "filter is_verdict (sim_trace ?st11) = filter is_verdict (sim_trace st)"
    by (simp add: verdict_before_quiz verdict_connect_phase verdict_spawn_students verdict_sleep)
  then show ?thesis
    using assms quiz_phase_no_batch [of cfg e tch lesson ?st11] unfolding c by simp
qed

lemma no_batch_run:
  "fst (create_batch_quizzes teacher_tess ''L1'' (batch_http env_no_batch)) = Inr None
   \<and> fst (run_simulation conf_one env_no_batch) = NoBatch
   \<and> filter landmark (sim_trace (snd (run_simulation conf_one env_no_batch))) =
       [Act (Http ''POST'' ''http://localhost:8000/api/v3/rooms/room-1/lessons'' JNull),
        Spawn 1, ConnectCall 1, SeatBatch 1 [1],
        Act (Http ''POST'' ''http://localhost:8000/api/v3/lessons/L1/choose_seat''
               (JObj [(''serial_number'', JNum 1), (''sid'', JStr ''sid-1''),
                      (''device_id'', JStr ''device''), (''is_incognito'', JBool False)])),
        Act (Http ''POST'' ''http://localhost:8000/api/v3/lessons/L1/quizzes/batch_quizzes''
               (batch_quizzes_payload teacher_tess ''L1''))]
   \<and> last (sim_trace (snd (run_simulation conf_one env_no_batch)))
       = Act (Log ERROR ''Failed to create batch quizzes. Aborting.'')"
  by (simp add: run_simulation_def classroom_def quiz_phase_def connect_phase_def
      before_quiz_def seat_phase_def seat_batch_def still_connected_students_def seat_report_def
      disconnected_report_def traced_def sleep_def apply_inbound_def connect_check_def
      create_lesson_def create_batch_quizzes_def new_teacher_def new_student_def new_tracker_def
      rstrip_slash_def bind_err_def on_connect_def choose_seat_request_def choose_seat_settle_def
      spawn_students_def initial_sim_def teacher_tess_def batch_quizzes_payload_def
      Let_def conf_one_def env_no_batch_def lesson_created_def seat_granted_def
      py_range.simps upto.simps poll_loop_unfold)

text \<open>
  C3, as the code has it. When \<^verbatim>\<open>create_batch_quizzes\<close> returns \<^verbatim>\<open>None\<close> (or an empty
  id), step 4 logs the failure and returns: nothing follows the abort line. A run that
  ended this way made no verification and disconnected no student.
\<close>

theorem batch_failure_aborts:
  assumes "create_batch_quizzes tch lesson (batch_http e) = (Inr b, acts)"
    and "\<not> truthy b"
  shows "quiz_phase cfg e tch lesson st =
           (NoBatch,
            traced (map Act acts @ [Act (Log ERROR ''Failed to create batch quizzes. Aborting.'')]) st)
       \<and> (fst (run_simulation cfg e) = NoBatch \<longrightarrow>
            filter is_verdict (sim_trace (snd (run_simulation cfg e))) = [])"
proof -
  have a: "quiz_phase cfg e tch lesson st =
           (NoBatch,
            traced (map Act acts @ [Act (Log ERROR ''Failed to create batch quizzes. Aborting.'')]) st)"
    using assms by (cases b) (simp_all add: quiz_phase_def Let_def traced_def)
  have b: "filter is_verdict (sim_trace (snd (run_simulation cfg e))) = []"
    if nb: "fst (run_simulation cfg e) = NoBatch"
  proof -
    let ?tch = "new_teacher (conf_api_url cfg) (conf_teacher_token cfg) (conf_room_id cfg)
                  (conf_collection_id cfg)"
    obtain tch1 r acts1 where cl: "create_lesson ?tch (lesson_http e) = (tch1, r, acts1)"
      by (cases "create_lesson ?tch (lesson_http e)") auto
    from nb cl obtain lesson where
      run: "run_simulation cfg e = classroom cfg e tch1 lesson (traced (map Act acts1) initial_sim)"
      by (auto simp: run_simulation_def Let_def split: sum.splits option.splits if_splits)
    have "filter is_verdict (sim_trace (traced (map Act acts1) initial_sim)) = []"
      by (simp add: verdict_traced_acts initial_trace)
    then show ?thesis
      using nb classroom_no_batch [of cfg e tch1 lesson "traced (map Act acts1) initial_sim"]
      unfolding run by simp
  qed
  show ?thesis using a b by blast
qed

theorem batch_failure_aborts_witness:
  "fst (quiz_phase conf_one env_no_batch teacher_tess ''L1'' initial_sim) = NoBatch
   \<and> filter is_verdict (sim_trace (snd (run_simulation conf_one env_no_batch))) = []"
proof -
  have cb: "create_batch_quizzes teacher_tess ''L1'' (batch_http env_no_batch)
      = (Inr None,
         [Http ''POST'' ''http://localhost:8000/api/v3/lessons/L1/quizzes/batch_quizzes''
            (batch_quizzes_payload teacher_tess ''L1''),
          Log ERROR ''Failed to create batch quizzes''])"
    by (simp add: create_batch_quizzes_def env_no_batch_def teacher_tess_def new_teacher_def
        rstrip_slash_def Let_def)
  have f: "\<not> truthy None" by simp
  note t = batch_failure_aborts [OF cb f, of conf_one]
  have a: "fst (quiz_phase conf_one env_no_batch teacher_tess ''L1'' initial_sim) = NoBatch"
    using t [of initial_sim, THEN conjunct1] by simp
  have b: "filter is_verdict (sim_trace (snd (run_simulation conf_one env_no_batch))) = []"
    using t [of initial_sim, THEN conjunct2] no_batch_run [THEN conjunct2, THEN conjunct1]
    by simp
  show ?thesis using a b by (rule conjI)
qed

text \<open>The claim as written fails: in a run whose batch creation fails, the request that
  tried to create the batch is the last step, and the abort line the last event.\<close>

theorem batch_failure_continues_counterexample:
  "fst (create_batch_quizzes teacher_tess ''L1'' (batch_http env_no_batch)) = Inr None
   \<and> fst (run_simulation conf_one env_no_batch) = NoBatch
   \<and> filter landmark (sim_trace (snd (run_simulation conf_one env_no_batch))) =
       [Act (Http ''POST'' ''http://localhost:8000/api/v3/rooms/room-1/lessons'' JNull),
        Spawn 1, ConnectCall 1, SeatBatch 1 [1],
        Act (Http ''POST'' ''http://localhost:8000/api/v3/lessons/L1/choose_seat''
               (JObj [(''serial_number'', JNum 1), (''sid'', JStr ''sid-1''),
                      (''device_id'', JStr ''device''), (''is_incognito'', JBool False)])),
        Act (Http ''POST'' ''http://localhost:8000/api/v3/lessons/L1/quizzes/batch_quizzes''
               (batch_quizzes_payload teacher_tess ''L1''))]
   \<and> last (sim_trace (snd (run_simulation conf_one env_no_batch)))
       = Act (Log ERROR ''Failed to create batch quizzes. Aborting.'')"
  by (rule no_batch_run)

subsection \<open>The audience of a verification\<close>


































end
